theory Spec2Isabelle
  imports Complex_Main "HOL-Library.Multiset"
begin

section \<open>Strings and JSON text\<close>

text \<open>
  Python strings are modelled as \<^typ>\<open>string\<close>, one \<^typ>\<open>char\<close> per code point
  (code points below 256). \<open>startswith\<close> is \<open>str.startswith\<close>, \<open>contains s p\<close> is
  Python's \<open>p in s\<close>, \<open>lower\<close> is \<open>str.lower\<close> on ASCII letters.
\<close>

definition startswith :: "string \<Rightarrow> string \<Rightarrow> bool" where
  "startswith s p = (take (length p) s = p)"

fun contains :: "string \<Rightarrow> string \<Rightarrow> bool" where
  "contains [] p = (p = [])"
| "contains (c # s) p = (startswith (c # s) p \<or> contains s p)"

definition lower_char :: "char \<Rightarrow> char" where
  "lower_char c =
     (if (65::nat) \<le> of_char c \<and> of_char c \<le> (90::nat)
      then char_of (of_char c + (32::nat)) else c)"

definition lower :: "string \<Rightarrow> string" where
  "lower s = map lower_char s"

text \<open>
  \<open>json.dumps\<close> of a dictionary with one string key and one string value, with the
  default \<open>ensure_ascii\<close> escaping: quote and backslash are escaped, the five short
  control escapes are used, and every other character outside the printable ASCII range
  is written as a four-digit \<open>\u\<close> escape.
\<close>

definition hex_digit :: "nat \<Rightarrow> char" where
  "hex_digit n = ''0123456789abcdef'' ! (n mod 16)"

definition json_escape :: "char \<Rightarrow> string" where
  "json_escape c =
     (if c = CHR 0x22 then [CHR 0x5C, CHR 0x22]
      else if c = CHR 0x5C then [CHR 0x5C, CHR 0x5C]
      else if c = CHR 0x0A then [CHR 0x5C, CHR ''n'']
      else if c = CHR 0x0D then [CHR 0x5C, CHR ''r'']
      else if c = CHR 0x09 then [CHR 0x5C, CHR ''t'']
      else if c = CHR 0x0C then [CHR 0x5C, CHR ''f'']
      else if c = CHR 0x08 then [CHR 0x5C, CHR ''b'']
      else if (32::nat) \<le> of_char c \<and> of_char c \<le> (126::nat) then [c]
      else [CHR 0x5C, CHR ''u'', CHR ''0'', CHR ''0'',
            hex_digit (of_char c div 16), hex_digit (of_char c mod 16)])"

definition json_string :: "string \<Rightarrow> string" where
  "json_string s = CHR 0x22 # concat (map json_escape s) @ [CHR 0x22]"

definition json_dumps :: "string \<Rightarrow> string \<Rightarrow> string" where
  "json_dumps k v = ''{'' @ json_string k @ '': '' @ json_string v @ ''}''"

section \<open>Data model\<close>

text \<open>
  \<open>AllowedModelName\<close> is the \<open>Literal\<close> type of \<open>schema.py\<close>; \<open>model_id\<close> gives the
  string each literal stands for.
\<close>

datatype AllowedModelName =
    Gpt_4_1 | Gpt_4_1_mini | Gpt_4o
  | Claude_3_7_sonnet | Gemini_2_5_pro_preview | Llama_4_maverick
  | Lumo_70b | Lumo_8b | Lumo_deepseek_8b

fun model_id :: "AllowedModelName \<Rightarrow> string" where
  "model_id Gpt_4_1 = ''gpt-4.1''"
| "model_id Gpt_4_1_mini = ''gpt-4.1-mini''"
| "model_id Gpt_4o = ''gpt-4o''"
| "model_id Claude_3_7_sonnet = ''anthropic/claude-3.7-sonnet''"
| "model_id Gemini_2_5_pro_preview = ''google/gemini-2.5-pro-preview''"
| "model_id Llama_4_maverick = ''meta-llama/llama-4-maverick''"
| "model_id Lumo_70b = ''lumo-70b''"
| "model_id Lumo_8b = ''lumo-8b''"
| "model_id Lumo_deepseek_8b = ''lumo-deepseek-8b''"

text \<open>The request body of the chat endpoint (\<open>ChatRequest\<close>). Every optional field is an option.\<close>

record ChatRequest =
  public_key :: string
  signature :: string
  agent_public :: "string option"
  agent_private :: "string option"
  req_conversation_key :: "string option"
  req_message :: string
  model_name :: "AllowedModelName option"
  temperature :: "real option"
  tools :: "string list option"

text \<open>The snapshot stored in the \<open>input_params\<close> column.\<close>

record input_params =
  ip_public_key :: string
  ip_conversation_key :: string
  ip_message :: string
  ip_model_name :: string
  ip_temperature :: real
  ip_tools :: "string list option"

text \<open>
  A row of the \<open>requests\<close> table (class \<open>Requests\<close>). Nullable columns are options;
  \<open>time\<close> is a timestamp in microseconds. The primary key \<open>id\<close> is \<open>row_id\<close>.
\<close>

record Requests =
  row_id :: nat
  pubkey :: string
  conversation_key :: string
  input_params :: "input_params option"
  message :: "string option"
  success :: bool
  response :: "string option"
  verbose :: "string option"
  liked :: "bool option"
  input_token_count :: "nat option"
  output_token_count :: "nat option"
  total_token_count :: "nat option"
  time :: nat

text \<open>A row of the \<open>users\<close> table (class \<open>User\<close>).\<close>

record User =
  user_id :: nat
  user_pubkey :: string
  premium_end :: "nat option"

record db =
  requests :: "Requests list"
  users :: "User list"

text \<open>The tool classes of the \<open>tools\<close> package; an instance is identified by its class.\<close>

datatype tool =
    WalletPortfolioTool | TokenIdentificationTool | RugcheckTokenInformationTool
  | FluxBeamTokenPriceTool | JupiterTokenPriceTool | JupiterTokenInformationTool
  | JupiterSwapTool | DexScreenerTopBoostsTool | DexScreenerTokenInformationTool
  | BirdeyeTokenTrendingTool | BirdeyeAllTimeTradesTool | CMCCryptoNewsTool
  | CMCTrendingCoinsTool | CNMemecoinsNewsTool | GTPumpFunTrendingTool
  | CoinGeckoGlobalCryptoDataTool | CoinGeckoTrendingTool | CoinGeckoExchangeRatesTool
  | CoinGeckoCoinDataTool | SolanaSendSolTool | SolanaSendSplTokensTool
  | SolanaBurnTokenTool | PumpFunLaunchCoinTool

primrec TOOL_DESCRIPTIONS :: "tool \<Rightarrow> string option" where
  "TOOL_DESCRIPTIONS WalletPortfolioTool = Some
     ''wallet_portfolio_tool: Get detailed information about all tokens, their contract address, held in a wallet. [HIGHEST PRIORITY, SHOULD BE USED IN PLACE: 1]''"
| "TOOL_DESCRIPTIONS TokenIdentificationTool = Some
     ''token_identification_tool: Get token information by name or ticker symbol. Use this to find contract addresses for tokens. [HIGHEST PRIORITY, SHOULD BE USED IN PLACE: 2]''"
| "TOOL_DESCRIPTIONS RugcheckTokenInformationTool = Some
     ''rugcheck_token_information_tool: Get detailed token information including creator details, supply, top holders, and insiders information. [MEDIUM PRIORITY, SHOULD BE USED IN PLACE: 3]''"
| "TOOL_DESCRIPTIONS FluxBeamTokenPriceTool = Some
     ''fluxbeam_token_price_tool: Get the current price of a token in USD (US Dollars) from FluxBeam. [MEDIUM PRIORITY, SHOULD BE USED IN PLACE: 4]''"
| "TOOL_DESCRIPTIONS JupiterTokenPriceTool = Some
     ''jupiter_token_price_tool: Get the current price of one or more Solana tokens in USD from Jupiter. Supports multiple comma-separated token addresses. [MEDIUM PRIORITY, SHOULD BE USED IN PLACE: 5]''"
| "TOOL_DESCRIPTIONS JupiterTokenInformationTool = Some
     ''jupiter_token_information_tool: Get detailed token information and metadata for a specific Solana token from Jupiter. Provides details like name, symbol, decimals, and other token attributes. [MEDIUM PRIORITY, SHOULD BE USED IN PLACE: 5]''"
| "TOOL_DESCRIPTIONS JupiterSwapTool = Some
     ''jupiter_swap_tool: Swap tokens on Solana using Jupiter. This tool can buy or sell tokens by exchanging one for another. Requires agent wallet authentication. [LOW PRIORITY, SHOULD BE USED IN PLACE: 6]''"
| "TOOL_DESCRIPTIONS DexScreenerTopBoostsTool = Some
     ''dexscreener_top_boosts_tool: Get tokens with the most active boosts on DexScreener, showing popularity and trending projects. [MEDIUM PRIORITY, SHOULD BE USED IN PLACE: 5]''"
| "TOOL_DESCRIPTIONS DexScreenerTokenInformationTool = Some
     ''dexscreener_token_information_tool: Get detailed DEX information about Solana tokens including price, volume, liquidity, and trading activity. It must be sent token addresses only as input. [MEDIUM PRIORITY, SHOULD BE USED IN PLACE: 5]''"
| "TOOL_DESCRIPTIONS BirdeyeTokenTrendingTool = Some
     ''birdeye_token_trending_tool: Get a list of top trending tokens on Solana with prices, market caps, and volume data. [MEDIUM PRIORITY, SHOULD BE USED IN PLACE: 5]''"
| "TOOL_DESCRIPTIONS BirdeyeAllTimeTradesTool = Some
     ''birdeye_all_time_trades_tool: Get comprehensive trade statistics (buys, sells, volumes) of all time for a specific token on Solana. [MEDIUM PRIORITY, SHOULD BE USED IN PLACE: 5]''"
| "TOOL_DESCRIPTIONS CMCCryptoNewsTool = Some
     ''cmc_crypto_news_tool: Get the latest crypto news from CoinMarketCap including headlines, content and related tickers. [MEDIUM PRIORITY, SHOULD BE USED IN PLACE: 5]''"
| "TOOL_DESCRIPTIONS CMCTrendingCoinsTool = Some
     ''cmc_trending_coins_tool: Get a list of top cryptocurrencies ranked by market cap with price, market cap, and 24h change data. [MEDIUM PRIORITY, SHOULD BE USED IN PLACE: 5]''"
| "TOOL_DESCRIPTIONS CNMemecoinsNewsTool = Some
     ''cn_memecoins_news_tool: Get the latest memecoin news from Crypto.news including headlines, content and related tickers. [MEDIUM PRIORITY, SHOULD BE USED IN PLACE: 5]''"
| "TOOL_DESCRIPTIONS GTPumpFunTrendingTool = Some
     ''geckoterminal_trending_pumpfun_tool: Get the latest trending tokens from the Pump.fun category on GeckoTerminal with price, volume, and market data. [MEDIUM PRIORITY, SHOULD BE USED IN PLACE: 5]''"
| "TOOL_DESCRIPTIONS CoinGeckoGlobalCryptoDataTool = Some
     ''coingecko_global_crypto_data_tool: Get global cryptocurrency market data including market cap, volume, and dominance percentages. [MEDIUM PRIORITY, SHOULD BE USED IN PLACE: 5]''"
| "TOOL_DESCRIPTIONS CoinGeckoTrendingTool = Some
     ''coingecko_trending_tool: Get top trending coins and NFTs on CoinGecko based on user searches and trading volume. [MEDIUM PRIORITY, SHOULD BE USED IN PLACE: 5]''"
| "TOOL_DESCRIPTIONS CoinGeckoExchangeRatesTool = Some
     ''coingecko_exchange_rates_tool: Get Bitcoin-to-currency exchange rates for major cryptocurrencies, fiat currencies, and commodities. [MEDIUM PRIORITY, SHOULD BE USED IN PLACE: 5]''"
| "TOOL_DESCRIPTIONS CoinGeckoCoinDataTool = Some
     ''coingecko_coin_data_tool: Get detailed market data (price, volume, market cap) for a specific cryptocurrency. [MEDIUM PRIORITY, SHOULD BE USED IN PLACE: 5]''"
| "TOOL_DESCRIPTIONS SolanaSendSolTool = Some
     ''solana_send_sol_tool: Send SOL from your agent wallet to a specified Solana address. Requires your agent wallet's public and encrypted private keys. [LOW PRIORITY, SHOULD BE USED IN PLACE: 6]''"
| "TOOL_DESCRIPTIONS SolanaSendSplTokensTool = Some
     ''solana_send_spl_tokens_tool: Send SPL tokens from your agent wallet to a specified Solana address. Requires your agent wallet's public and encrypted private keys, token address, and amount. [LOW PRIORITY, SHOULD BE USED IN PLACE: 6]''"
| "TOOL_DESCRIPTIONS SolanaBurnTokenTool = Some
     ''solana_burn_token_tool: Burn SPL tokens from your agent wallet, permanently removing them from circulation. Requires your agent wallet's public and encrypted private keys, token address, and amount. [LOW PRIORITY, SHOULD BE USED IN PLACE: 6]''"
| "TOOL_DESCRIPTIONS PumpFunLaunchCoinTool = Some
     ''pumpfun_launch_coin_tool: Launch a new token on Pump.fun platform. Create your own token with custom name, symbol, description, and image. Requires agent wallet for token creation. [LOW PRIORITY, SHOULD BE USED IN PLACE: 6]''"

text \<open>\<open>get_tools_system_message\<close> of the \<open>tools\<close> package.\<close>

definition get_tools_system_message :: "tool list \<Rightarrow> string" where
  "get_tools_system_message tools_list =
     (if tools_list = [] then []
      else ''You have access to tools that you must use sequentially:'' @ [CHR 0x0A] @
           concat (map (\<lambda>t. case TOOL_DESCRIPTIONS t of
                                 Some d \<Rightarrow> ''- '' @ d @ [CHR 0x0A]
                               | None \<Rightarrow> []) tools_list))"

section \<open>Collaborators\<close>

text \<open>
  Everything outside the controller is a parameter, collected in the record \<open>env\<close>:
  the signature check of the \<open>solders\<close> library, the clocks (\<open>datetime.utcnow()\<close>,
  \<open>datetime.now()\<close> and the database server's \<open>func.now()\<close>), the draws of
  \<open>random.choice\<close>, the configuration values (the two daily limits after their
  \<open>int(...)\<close> conversion), the tokenizer (\<open>len(encoding.encode(s))\<close>), the text captured
  from standard output during the turn, and the two generation calls of LangChain.

  A generation call is modelled by what the controller observes of it: the sequence of
  callbacks LangChain makes on the registered \<open>StreamingCallback\<close> and of items the
  async iterator yields, in the order they happen, ended either by exhaustion of the
  iterator (\<open>raised = None\<close>) or by an exception with message \<open>e\<close> (\<open>raised = Some e\<close>).
  The database is assumed to answer every query and accept every commit.
\<close>

datatype chat_message = SystemMessage string | HumanMessage string | AIMessage string

fun content :: "chat_message \<Rightarrow> string" where
  "content (SystemMessage s) = s"
| "content (HumanMessage s) = s"
| "content (AIMessage s) = s"

datatype callback =
  On_llm_start | On_llm_new_token string | On_llm_end | On_llm_error string

record log_op =
  op_kind :: string
  op_path :: string
  op_value :: "string option"

datatype 'a gen_event = Callback callback | Yielded 'a

record 'a generation =
  events :: "'a gen_event list"
  raised :: "string option"

text \<open>The keyword arguments given to \<open>ChatOpenAI\<close>; an argument left out is \<open>None\<close>.\<close>

record chat_model =
  cm_model_name :: string
  cm_temperature :: real
  cm_streaming :: bool
  cm_max_tokens :: "nat option"
  cm_base_url :: "string option"
  cm_api_key :: "string option"

record env =
  verify_signature :: "string \<Rightarrow> string \<Rightarrow> bool"
  utcnow :: nat
  now :: nat
  func_now :: nat
  random_index :: "nat \<Rightarrow> nat"
  FREE_USER_DAILY_LIMIT :: int
  PRO_USER_DAILY_LIMIT :: int
  INFYR_API_KEY :: string
  OPENROUTER_API_KEY :: string
  encode_len :: "string \<Rightarrow> nat"
  debug_output :: string
  astream :: "chat_model \<Rightarrow> chat_message list \<Rightarrow> string generation"
  astream_log :: "chat_model \<Rightarrow> tool list \<Rightarrow> string \<Rightarrow> chat_message list \<Rightarrow>
                  string \<Rightarrow> string option \<Rightarrow> (log_op list) generation"

section \<open>The chat controller\<close>

subsection \<open>Helpers\<close>

text \<open>
  \<open>generate_conversation_key\<close>: \<open>length\<close> draws of \<open>random.choice(chars)\<close>; the
  \<open>i\<close>-th draw is \<open>random_index env i\<close>, reduced below the number of characters.
\<close>

definition chars :: string where
  "chars = ''abcdefghijklmnopqrstuvwxyzABCDEFGHIJKLMNOPQRSTUVWXYZ'' @ ''0123456789''"

definition generate_conversation_key :: "env \<Rightarrow> nat \<Rightarrow> string" where
  "generate_conversation_key env len =
     map (\<lambda>i. chars ! (random_index env i mod length chars)) [0..<len]"

text \<open>\<open>count_tokens\<close> on a string and on a list of strings.\<close>

definition count_tokens :: "env \<Rightarrow> string \<Rightarrow> nat" where
  "count_tokens env s = encode_len env s"

definition count_tokens_list :: "env \<Rightarrow> string list \<Rightarrow> nat" where
  "count_tokens_list env ms = sum_list (map (encode_len env) ms)"

text \<open>Python truth of an optional string: neither \<open>None\<close> nor empty.\<close>

fun truthy :: "string option \<Rightarrow> bool" where
  "truthy None = False"
| "truthy (Some s) = (s \<noteq> [])"

text \<open>\<open>check_user_pro_status\<close> of the users controller, reduced to its \<open>is_pro\<close> field.\<close>

definition check_user_pro_status :: "env \<Rightarrow> string \<Rightarrow> db \<Rightarrow> bool" where
  "check_user_pro_status env pk d =
     (if pk = [] then False
      else case find (\<lambda>u. user_pubkey u = pk) (users d) of
             None \<Rightarrow> False
           | Some u \<Rightarrow> (case premium_end u of
                          None \<Rightarrow> False
                        | Some t \<Rightarrow> now env < t))"

subsection \<open>Queries and updates on the requests table\<close>

text \<open>
  \<open>order_by(Requests.time.desc())\<close>. The sort is stable: rows with equal timestamps
  stay in the order of their insertion, as SQLite returns them.
\<close>

definition order_by_time_desc :: "Requests list \<Rightarrow> Requests list" where
  "order_by_time_desc rows = sort_key (\<lambda>r. - int (time r)) rows"

definition conversation_rows :: "string \<Rightarrow> string \<Rightarrow> db \<Rightarrow> Requests list" where
  "conversation_rows pk key d =
     filter (\<lambda>r. pubkey r = pk \<and> conversation_key r = key) (requests d)"

text \<open>\<open>db.query(Requests).filter(Requests.id == request_id).first()\<close> followed by
  assignments to the row found and a commit.\<close>

fun update_first :: "('a \<Rightarrow> bool) \<Rightarrow> ('a \<Rightarrow> 'a) \<Rightarrow> 'a list \<Rightarrow> 'a list" where
  "update_first p f [] = []"
| "update_first p f (x # xs) = (if p x then f x # xs else x # update_first p f xs)"

definition update_request :: "nat \<Rightarrow> (Requests \<Rightarrow> Requests) \<Rightarrow> db \<Rightarrow> db" where
  "update_request request_id f d =
     d\<lparr>requests := update_first (\<lambda>r. row_id r = request_id) f (requests d)\<rparr>"

text \<open>The autoincrement primary key: one more than every id in the table.\<close>

definition next_id :: "db \<Rightarrow> nat" where
  "next_id d = Suc (Max (set (0 # map row_id (requests d))))"

definition day :: nat where
  "day = 86400000000"

definition today_start :: "env \<Rightarrow> nat" where
  "today_start env = utcnow env - utcnow env mod day"

definition today_request_count :: "env \<Rightarrow> string \<Rightarrow> db \<Rightarrow> nat" where
  "today_request_count env pk d =
     length (filter (\<lambda>r. pubkey r = pk \<and> today_start env \<le> time r) (requests d))"

subsection \<open>\<open>StreamingCallback\<close>\<close>

record StreamingCallback =
  generated_text :: string
  token_buffer :: "string list"
  last_db_update :: nat

definition new_StreamingCallback :: StreamingCallback where
  "new_StreamingCallback = \<lparr>generated_text = [], token_buffer = [], last_db_update = 0\<rparr>"

definition on_llm_new_token ::
  "nat \<Rightarrow> string \<Rightarrow> StreamingCallback \<times> db \<Rightarrow> StreamingCallback \<times> db" where
  "on_llm_new_token request_id token st =
     (case st of (h, d) \<Rightarrow>
        let text = generated_text h @ token;
            h1 = h\<lparr>generated_text := text, token_buffer := token_buffer h @ [token]\<rparr>
        in if 50 \<le> int (length text) - int (last_db_update h)
           then (if \<exists>r \<in> set (requests d). row_id r = request_id
                 then (h1\<lparr>last_db_update := length text\<rparr>,
                       update_request request_id (\<lambda>r. r\<lparr>response := Some text\<rparr>) d)
                 else (h1, d))
           else (h1, d))"

definition on_llm_end :: "nat \<Rightarrow> StreamingCallback \<times> db \<Rightarrow> StreamingCallback \<times> db" where
  "on_llm_end request_id st =
     (case st of (h, d) \<Rightarrow>
        (h, update_request request_id
              (\<lambda>r. r\<lparr>response := Some (generated_text h), success := True\<rparr>) d))"

definition on_llm_error ::
  "nat \<Rightarrow> string \<Rightarrow> StreamingCallback \<times> db \<Rightarrow> StreamingCallback \<times> db" where
  "on_llm_error request_id error st =
     (case st of (h, d) \<Rightarrow>
        (h, update_request request_id
              (\<lambda>r. r\<lparr>success := False, response := Some (''Error: '' @ error)\<rparr>) d))"

fun apply_callback ::
  "nat \<Rightarrow> callback \<Rightarrow> StreamingCallback \<times> db \<Rightarrow> StreamingCallback \<times> db" where
  "apply_callback request_id On_llm_start st = st"
| "apply_callback request_id (On_llm_new_token token) st = on_llm_new_token request_id token st"
| "apply_callback request_id On_llm_end st = on_llm_end request_id st"
| "apply_callback request_id (On_llm_error error) st = on_llm_error request_id error st"

subsection \<open>Tool selection\<close>

definition available_tools :: "(string \<times> tool) list" where
  "available_tools =
     [(''rugcheck_token_information_tool'', RugcheckTokenInformationTool),
      (''fluxbeam_token_price_tool'', FluxBeamTokenPriceTool),
      (''jupiter_token_price_tool'', JupiterTokenPriceTool),
      (''jupiter_token_information_tool'', JupiterTokenInformationTool),
      (''jupiter_swap_tool'', JupiterSwapTool),
      (''dexscreener_top_boosts_tool'', DexScreenerTopBoostsTool),
      (''dexscreener_token_information_tool'', DexScreenerTokenInformationTool),
      (''birdeye_token_trending_tool'', BirdeyeTokenTrendingTool),
      (''birdeye_all_time_trades_tool'', BirdeyeAllTimeTradesTool),
      (''cmc_crypto_news_tool'', CMCCryptoNewsTool),
      (''cmc_trending_coins_tool'', CMCTrendingCoinsTool),
      (''cn_memecoins_news_tool'', CNMemecoinsNewsTool),
      (''geckoterminal_trending_pumpfun_tool'', GTPumpFunTrendingTool),
      (''coingecko_global_crypto_data_tool'', CoinGeckoGlobalCryptoDataTool),
      (''coingecko_trending_tool'', CoinGeckoTrendingTool),
      (''coingecko_exchange_rates_tool'', CoinGeckoExchangeRatesTool),
      (''coingecko_coin_data_tool'', CoinGeckoCoinDataTool),
      (''solana_send_sol_tool'', SolanaSendSolTool),
      (''solana_send_spl_tokens_tool'', SolanaSendSplTokensTool),
      (''solana_burn_token_tool'', SolanaBurnTokenTool),
      (''pumpfun_launch_coin_tool'', PumpFunLaunchCoinTool)]"

text \<open>The comprehension \<open>[tool for tool in chat_request.tools if tool in available_tools]\<close>.\<close>

definition requested_tools :: "string list \<Rightarrow> string list" where
  "requested_tools ts = filter (\<lambda>t. map_of available_tools t \<noteq> None) ts"

text \<open>The loop that appends each selected instance not yet in the list.\<close>

fun add_tools :: "string list \<Rightarrow> tool list \<Rightarrow> tool list" where
  "add_tools [] acc = acc"
| "add_tools (tool_name # names) acc =
     (case map_of available_tools tool_name of
        None \<Rightarrow> add_tools names acc
      | Some tool_instance \<Rightarrow>
          (if tool_instance \<in> set acc then add_tools names acc
           else add_tools names (acc @ [tool_instance])))"

definition tool_limit_message :: string where
  "tool_limit_message = ''Free users can only use one additional tool beyond the defaults. Upgrade to Pro for access to more tools.''"

subsection \<open>System message and backend selection\<close>

definition base_system_message :: string where
  "base_system_message = ''You are LumoKit, a helpful AI assistant specialized in Solana actions and queries.''"

definition nl :: string where
  "nl = [CHR 0x0A]"

definition wallet_info :: "string \<Rightarrow> string \<Rightarrow> string" where
  "wallet_info pub priv =
      nl @ replicate 24 (CHR 0x20) @
      ''For any agentic execution, only when required you must use the following information:'' @
      nl @ replicate 24 (CHR 0x20) @ ''AGENT WALLET PUBLIC KEY:'' @
      nl @ replicate 24 (CHR 0x20) @ pub @
      nl @ nl @ replicate 24 (CHR 0x20) @ ''AGENT WALLET ENCRYPTED PRIVATE KEY:'' @
      nl @ replicate 24 (CHR 0x20) @ priv @
      nl @ nl @ replicate 24 (CHR 0x20) @
      ''If you're providing information, always try to provide it in an organised manner, '' @
      nl @ replicate 24 (CHR 0x20) @
      ''Use markdown formatting and tables. Use headings judiciously, bullet points, and other formatting to make the information clear and easy to read.'' @
      nl @ replicate 24 (CHR 0x20)"

definition system_message :: "ChatRequest \<Rightarrow> string \<Rightarrow> string" where
  "system_message cr tools_descriptions =
     (if truthy (agent_public cr) \<and> truthy (agent_private cr)
      then base_system_message @ wallet_info (the (agent_public cr)) (the (agent_private cr))
           @ nl @ nl @ tools_descriptions
      else base_system_message
           @ (if \<not> truthy (agent_public cr)
              then ''The user must first connect an agent wallet.'' @ nl else [])
           @ (if \<not> truthy (agent_private cr)
              then ''The user must first connect an agent wallet.'' @ nl else [])
           @ nl @ nl @ tools_descriptions)"

text \<open>
  The three-way choice of backend. It returns the \<open>ChatOpenAI\<close> arguments and the tool
  list, which the Lumo branch replaces by the empty list.
\<close>

definition select_backend ::
  "env \<Rightarrow> string \<Rightarrow> real \<Rightarrow> tool list \<Rightarrow> chat_model \<times> tool list" where
  "select_backend env name temp tls =
     (if contains (lower name) ''gpt''
      then (\<lparr>cm_model_name = name, cm_temperature = temp, cm_streaming = True,
             cm_max_tokens = None, cm_base_url = None, cm_api_key = None\<rparr>, tls)
      else if startswith name ''lumo-''
      then (\<lparr>cm_model_name = name, cm_temperature = temp, cm_streaming = True,
             cm_max_tokens = Some 4096, cm_base_url = Some ''https://api.infyr.ai/v1'',
             cm_api_key = Some (INFYR_API_KEY env)\<rparr>, [])
      else (\<lparr>cm_model_name = name, cm_temperature = temp, cm_streaming = True,
             cm_max_tokens = None, cm_base_url = Some ''https://openrouter.ai/api/v1'',
             cm_api_key = Some (OPENROUTER_API_KEY env)\<rparr>, tls))"

subsection \<open>Conversation history\<close>

text \<open>The query at the head of \<open>stream_response\<close> (five rows, newest first) and its reversal.\<close>

definition conversation_history :: "string \<Rightarrow> string \<Rightarrow> db \<Rightarrow> Requests list" where
  "conversation_history pk key d =
     rev (take 5 (order_by_time_desc (conversation_rows pk key d)))"

text \<open>The loop over \<open>conversation_history[:-1]\<close> that builds \<open>chat_history\<close>.\<close>

definition turn_messages :: "Requests \<Rightarrow> chat_message list" where
  "turn_messages prev_req =
     (if truthy (message prev_req) then [HumanMessage (the (message prev_req))] else [])
     @ (if truthy (response prev_req) then [AIMessage (the (response prev_req))] else [])"

definition build_chat_history :: "Requests list \<Rightarrow> chat_message list" where
  "build_chat_history history = concat (map turn_messages (butlast history))"

subsection \<open>Generation\<close>

text \<open>
  What one item of the async iterator makes the generator yield. In direct mode the item
  is the chunk's \<open>content\<close>, yielded when it is not empty. In agent mode the item is the
  list \<open>log_entry.ops\<close>; an operation counts when it adds to the streamed output of a
  \<open>ChatOpenAI\<close> run and its value is not empty.
\<close>

definition endswith :: "string \<Rightarrow> string \<Rightarrow> bool" where
  "endswith s p = startswith (rev s) (rev p)"

definition direct_fragments :: "string \<Rightarrow> string list" where
  "direct_fragments chunk_content = (if chunk_content \<noteq> [] then [chunk_content] else [])"

definition op_fragments :: "log_op \<Rightarrow> string list" where
  "op_fragments op =
     (if op_kind op = ''add'' \<and> startswith (op_path op) ''/logs/ChatOpenAI''
         \<and> endswith (op_path op) ''/streamed_output_str/-''
      then (if truthy (op_value op) then [the (op_value op)] else [])
      else [])"

definition agent_fragments :: "log_op list \<Rightarrow> string list" where
  "agent_fragments ops = concat (map op_fragments ops)"

text \<open>
  The state of a running generation: the callback handler, the database, the text
  accumulated in \<open>full_response_text\<close> and the fragments yielded so far.
\<close>

type_synonym run_state = "StreamingCallback \<times> db \<times> string \<times> string list"

fun run_events ::
  "('a \<Rightarrow> string list) \<Rightarrow> nat \<Rightarrow> 'a gen_event list \<Rightarrow> run_state \<Rightarrow> run_state" where
  "run_events frags request_id [] st = st"
| "run_events frags request_id (Callback c # es) (h, d, full, out) =
     (case apply_callback request_id c (h, d) of
        (h', d') \<Rightarrow> run_events frags request_id es (h', d', full, out))"
| "run_events frags request_id (Yielded x # es) (h, d, full, out) =
     run_events frags request_id es (h, d, full @ concat (frags x), out @ frags x)"

text \<open>
  The statements after the generation loop: token counts, the manual \<open>on_llm_end\<close> for
  Lumo models, and the final response with \<open>success = True\<close>.
\<close>

definition finish_turn ::
  "env \<Rightarrow> nat \<Rightarrow> string \<Rightarrow> nat \<Rightarrow> run_state \<Rightarrow> db" where
  "finish_turn env request_id name input_tokens st =
     (case st of (h, d, full, out) \<Rightarrow>
        let output_tokens = count_tokens env full;
            total_tokens = input_tokens + output_tokens;
            d1 = update_request request_id
                   (\<lambda>r. r\<lparr>input_token_count := Some input_tokens,
                           output_token_count := Some output_tokens,
                           total_token_count := Some total_tokens\<rparr>) d;
            d2 = (if startswith name ''lumo-''
                  then snd (on_llm_end request_id (h, d1)) else d1)
        in update_request request_id (\<lambda>r. r\<lparr>response := Some full, success := True\<rparr>) d2)"

text \<open>The message of the \<open>TypeError\<close> raised by iterating over \<open>None\<close>.\<close>

definition none_not_iterable :: string where
  "none_not_iterable = [CHR 0x27] @ ''NoneType'' @ [CHR 0x27] @ '' object is not iterable''"

text \<open>The guard on the number of additional tools of a free user.\<close>

definition tool_limit_exceeded :: "bool \<Rightarrow> string list \<Rightarrow> bool" where
  "tool_limit_exceeded is_pro_user ts = (\<not> is_pro_user \<and> 1 < length (requested_tools ts))"

text \<open>
  From the tool selection to the call of the model. The result says which of the two
  modes runs: \<open>Direct\<close> with the generation \<open>chat.astream(messages)\<close>, or \<open>Agent\<close> with
  the generation \<open>agent_executor.astream_log(...)\<close>, each with the input token count.
\<close>

datatype started =
    Direct "string generation" nat
  | Agent "(log_op list) generation" nat

definition start_generation ::
  "env \<Rightarrow> ChatRequest \<Rightarrow> string \<Rightarrow> real \<Rightarrow> Requests list \<Rightarrow> string list \<Rightarrow> started" where
  "start_generation env cr name temp history ts =
     (let tls = add_tools (requested_tools ts) [WalletPortfolioTool, TokenIdentificationTool];
          tools_descriptions = get_tools_system_message tls;
          sys_msg = system_message cr tools_descriptions;
          chat_history = build_chat_history history
      in case select_backend env name temp tls of (chat, tls') \<Rightarrow>
           if startswith name ''lumo-''
           then Direct
                  (astream env chat
                     (SystemMessage base_system_message # chat_history
                        @ [HumanMessage (req_message cr)]))
                  (count_tokens env base_system_message
                     + count_tokens_list env (map content chat_history)
                     + count_tokens env (req_message cr))
           else Agent
                  (astream_log env chat tls' sys_msg chat_history (req_message cr)
                     (agent_public cr))
                  (count_tokens env sys_msg
                     + count_tokens_list env (map content chat_history)
                     + count_tokens env (req_message cr)))"

text \<open>
  The generation loop and what follows it. The result is the fragments yielded, the
  database left, and the message of the exception raised, if any.
\<close>

definition run_generation ::
  "env \<Rightarrow> nat \<Rightarrow> string \<Rightarrow> ('a \<Rightarrow> string list) \<Rightarrow> 'a generation \<Rightarrow> nat \<Rightarrow> db
     \<Rightarrow> string list \<times> db \<times> string option" where
  "run_generation env request_id name frags gen input_tokens d =
     (let st = run_events frags request_id (events gen) (new_StreamingCallback, d, [], [])
      in case raised gen of
           Some e \<Rightarrow> (snd (snd (snd st)), fst (snd st), Some e)
         | None \<Rightarrow> (snd (snd (snd st)),
                     finish_turn env request_id name input_tokens st, None))"

text \<open>
  The body of the \<open>try\<close> block of \<open>stream_response\<close>. Iterating over
  \<open>chat_request.tools\<close> when it is \<open>None\<close> raises a \<open>TypeError\<close>.
\<close>

definition try_block ::
  "env \<Rightarrow> ChatRequest \<Rightarrow> bool \<Rightarrow> string \<Rightarrow> real \<Rightarrow> nat \<Rightarrow> Requests list \<Rightarrow> db
     \<Rightarrow> string list \<times> db \<times> string option" where
  "try_block env cr is_pro_user name temp request_id history d =
     (case tools cr of
        None \<Rightarrow> ([], d, Some none_not_iterable)
      | Some ts \<Rightarrow>
          if tool_limit_exceeded is_pro_user ts
          then ([json_dumps ''error'' tool_limit_message],
                update_request request_id
                  (\<lambda>r. r\<lparr>success := False,
                          response := Some (json_dumps ''error'' tool_limit_message)\<rparr>) d,
                None)
          else
            (case start_generation env cr name temp history ts of
               Direct gen input_tokens \<Rightarrow>
                 run_generation env request_id name direct_fragments gen input_tokens d
             | Agent gen input_tokens \<Rightarrow>
                 run_generation env request_id name agent_fragments gen input_tokens d))"

text \<open>The \<open>except\<close> clause: one error fragment, and the row marked failed with zero counts.\<close>

definition except_block :: "nat \<Rightarrow> string \<Rightarrow> db \<Rightarrow> string list \<times> db" where
  "except_block request_id e d =
     ([json_dumps ''error'' e],
      update_request request_id
        (\<lambda>r. r\<lparr>success := False, response := Some (''Error: '' @ e),
                input_token_count := Some 0, output_token_count := Some 0,
                total_token_count := Some 0\<rparr>) d)"

text \<open>
  \<open>stream_response\<close>, run to the end: the conversation key, then the \<open>try\<close> block with
  its \<open>except\<close> clause, then \<open>DebugCaptureCallbackHandler.__exit__\<close>, which stores the
  captured output in the \<open>verbose\<close> column.
\<close>

definition stream_response ::
  "env \<Rightarrow> ChatRequest \<Rightarrow> bool \<Rightarrow> string \<Rightarrow> string \<Rightarrow> real \<Rightarrow> nat \<Rightarrow> db
     \<Rightarrow> string list \<times> db" where
  "stream_response env cr is_pro_user key name temp request_id d =
     (let first_chunk = json_dumps ''conversation_key'' key @ nl;
          history = conversation_history (public_key cr) key d
      in case try_block env cr is_pro_user name temp request_id history d of
           (out, d1, exc) \<Rightarrow>
             (case (case exc of
                      None \<Rightarrow> (out, d1)
                    | Some e \<Rightarrow> (case except_block request_id e d1 of
                                   (err, d2) \<Rightarrow> (out @ err, d2))) of
                (out', d3) \<Rightarrow>
                  (first_chunk # out',
                   update_request request_id
                     (\<lambda>r. r\<lparr>verbose := Some (debug_output env)\<rparr>) d3)))"

subsection \<open>\<open>process_chat_request\<close>\<close>

text \<open>A \<open>StreamingResponse\<close> is its media type and the chunks its iterator produces.\<close>

record StreamingResponse =
  media_type :: string
  body :: "string list"

definition auth_failed_message :: string where
  "auth_failed_message = ''Authentication failed, please relogin and try again.''"

definition model_gate_message :: string where
  "model_gate_message = ''Free users can only use the default gpt-4.1-mini model or Lumo models. Upgrade to Pro for access to additional models.''"

definition pro_limit_message :: string where
  "pro_limit_message = ''You've hit today's message limit. It will reset automatically tomorrow.''"

definition free_limit_message :: string where
  "free_limit_message = ''You've reached today's message limit. Upgrade to Pro for more access.''"

definition error_response :: "string \<Rightarrow> StreamingResponse" where
  "error_response msg =
     \<lparr>media_type = ''application/json'', body = [json_dumps ''error'' msg]\<rparr>"

text \<open>The model check: a free user may only name \<open>gpt-4.1-mini\<close> or a Lumo model.\<close>

definition model_not_allowed :: "bool \<Rightarrow> AllowedModelName option \<Rightarrow> bool" where
  "model_not_allowed is_pro_user m =
     (case m of
        None \<Rightarrow> False
      | Some a \<Rightarrow> \<not> is_pro_user \<and> model_id a \<noteq> ''gpt-4.1-mini''
                    \<and> \<not> startswith (model_id a) ''lumo-'')"

text \<open>The daily limit check; the result is the error message, if the limit is reached.\<close>

definition daily_limit_reached :: "env \<Rightarrow> bool \<Rightarrow> nat \<Rightarrow> string option" where
  "daily_limit_reached env is_pro_user today_count =
     (if is_pro_user \<and> PRO_USER_DAILY_LIMIT env \<le> int today_count
      then Some pro_limit_message
      else if \<not> is_pro_user \<and> FREE_USER_DAILY_LIMIT env \<le> int today_count
      then Some free_limit_message
      else None)"

text \<open>The conversation key: the one supplied when a row of this user carries it, a new one otherwise.\<close>

definition resolve_conversation_key :: "env \<Rightarrow> ChatRequest \<Rightarrow> db \<Rightarrow> string" where
  "resolve_conversation_key env cr d =
     (if \<not> truthy (req_conversation_key cr) then generate_conversation_key env 10
      else if conversation_rows (public_key cr) (the (req_conversation_key cr)) d = []
      then generate_conversation_key env 10
      else the (req_conversation_key cr))"

definition resolve_model_name :: "ChatRequest \<Rightarrow> string" where
  "resolve_model_name cr =
     (case model_name cr of None \<Rightarrow> ''gpt-4.1-mini'' | Some a \<Rightarrow> model_id a)"

definition resolve_temperature :: "ChatRequest \<Rightarrow> real" where
  "resolve_temperature cr =
     (case temperature cr of
        None \<Rightarrow> 0.7
      | Some t \<Rightarrow> if t < 0.0 \<or> 1.0 < t then 0.7 else t)"

text \<open>The new row, as \<open>Requests(...)\<close> builds it and the database completes it.\<close>

definition new_request :: "env \<Rightarrow> ChatRequest \<Rightarrow> string \<Rightarrow> db \<Rightarrow> Requests" where
  "new_request env cr key d =
     \<lparr>row_id = next_id d,
      pubkey = public_key cr,
      conversation_key = key,
      input_params = Some \<lparr>ip_public_key = public_key cr,
                           ip_conversation_key = key,
                           ip_message = req_message cr,
                           ip_model_name = resolve_model_name cr,
                           ip_temperature = resolve_temperature cr,
                           ip_tools = tools cr\<rparr>,
      message = Some (req_message cr),
      success = False,
      response = None,
      verbose = None,
      liked = None,
      input_token_count = None,
      output_token_count = None,
      total_token_count = None,
      time = func_now env\<rparr>"

definition add_request :: "Requests \<Rightarrow> db \<Rightarrow> db" where
  "add_request r d = d\<lparr>requests := requests d @ [r]\<rparr>"

definition process_chat_request :: "env \<Rightarrow> ChatRequest \<Rightarrow> db \<Rightarrow> StreamingResponse \<times> db" where
  "process_chat_request env cr d =
     (if \<not> verify_signature env (public_key cr) (signature cr)
      then (error_response auth_failed_message, d)
      else
        let is_pro_user = check_user_pro_status env (public_key cr) d in
        if model_not_allowed is_pro_user (model_name cr)
        then (error_response model_gate_message, d)
        else
          case daily_limit_reached env is_pro_user (today_request_count env (public_key cr) d) of
            Some msg \<Rightarrow> (error_response msg, d)
          | None \<Rightarrow>
              let key = resolve_conversation_key env cr d;
                  chat_db_request = new_request env cr key d;
                  d1 = add_request chat_db_request d
              in case stream_response env cr is_pro_user key (resolve_model_name cr)
                        (resolve_temperature cr) (row_id chat_db_request) d1 of
                   (out, d2) \<Rightarrow> (\<lparr>media_type = ''text/plain'', body = out\<rparr>, d2))"

subsection \<open>\<open>get_last_conversations\<close>\<close>

record LastConversationsRequest =
  lc_public_key :: string
  lc_signature :: string

record ConversationSummary =
  cs_conversation_key :: string
  last_message_preview :: string
  timestamp :: nat

record LastConversationsResponse =
  lc_success :: bool
  conversations :: "ConversationSummary list"
  lc_error :: "string option"

text \<open>The grouping subquery: each conversation key of the user with its latest time.\<close>

definition latest_conversations_subq :: "string \<Rightarrow> db \<Rightarrow> (string \<times> nat) list" where
  "latest_conversations_subq pk d =
     map (\<lambda>key. (key, Max (set (map time (conversation_rows pk key d)))))
       (remdups (map conversation_key (filter (\<lambda>r. pubkey r = pk) (requests d))))"

text \<open>The join with the table, the filter on the user, the order and the limit.\<close>

definition latest_conversations :: "string \<Rightarrow> db \<Rightarrow> Requests list" where
  "latest_conversations pk d =
     take 5 (order_by_time_desc
       (filter (\<lambda>r. pubkey r = pk)
          (concat (map (\<lambda>r. map (\<lambda>s. r)
                               (filter (\<lambda>s. conversation_key r = fst s \<and> time r = snd s)
                                  (latest_conversations_subq pk d)))
                       (requests d)))))"

definition message_preview :: "string \<Rightarrow> string" where
  "message_preview m = (if 50 < length m then take 50 m @ ''...'' else m)"

text \<open>
  The formatting loop. \<open>len\<close> of a \<open>message\<close> that is \<open>None\<close> raises a \<open>TypeError\<close>,
  which ends the loop; the result is \<open>None\<close> then.
\<close>

fun format_conversations :: "Requests list \<Rightarrow> ConversationSummary list option" where
  "format_conversations [] = Some []"
| "format_conversations (convo # rest) =
     (case message convo of
        None \<Rightarrow> None
      | Some m \<Rightarrow>
          (case format_conversations rest of
             None \<Rightarrow> None
           | Some cs \<Rightarrow> Some (\<lparr>cs_conversation_key = conversation_key convo,
                                 last_message_preview = message_preview m,
                                 timestamp = time convo\<rparr> # cs)))"

definition len_none_message :: string where
  "len_none_message = ''object of type '' @ [CHR 0x27] @ ''NoneType'' @ [CHR 0x27] @ '' has no len()''"

definition get_last_conversations ::
  "env \<Rightarrow> LastConversationsRequest \<Rightarrow> db \<Rightarrow> LastConversationsResponse" where
  "get_last_conversations env req d =
     (if \<not> verify_signature env (lc_public_key req) (lc_signature req)
      then \<lparr>lc_success = False, conversations = [], lc_error = Some auth_failed_message\<rparr>
      else case format_conversations (latest_conversations (lc_public_key req) d) of
             Some cs \<Rightarrow> \<lparr>lc_success = True, conversations = cs, lc_error = None\<rparr>
           | None \<Rightarrow> \<lparr>lc_success = False, conversations = [],
                        lc_error = Some (''Failed to retrieve conversations: '' @ len_none_message)\<rparr>)"

section \<open>Notions used to state the properties\<close>

text \<open>The items a generation yields, and the fragments the generator makes of them.\<close>

fun yielded :: "'a gen_event list \<Rightarrow> 'a list" where
  "yielded [] = []"
| "yielded (Callback c # es) = yielded es"
| "yielded (Yielded x # es) = x # yielded es"

definition fragments :: "('a \<Rightarrow> string list) \<Rightarrow> 'a generation \<Rightarrow> string list" where
  "fragments frags gen = concat (map frags (yielded (events gen)))"

text \<open>What a started generation yields, how it ends, and its input token count.\<close>

fun started_fragments :: "started \<Rightarrow> string list" where
  "started_fragments (Direct gen n) = fragments direct_fragments gen"
| "started_fragments (Agent gen n) = fragments agent_fragments gen"

fun started_raised :: "started \<Rightarrow> string option" where
  "started_raised (Direct gen n) = raised gen"
| "started_raised (Agent gen n) = raised gen"

fun started_input_tokens :: "started \<Rightarrow> nat" where
  "started_input_tokens (Direct gen n) = n"
| "started_input_tokens (Agent gen n) = n"

text \<open>
  A request is admitted when it passes the three gates of \<open>process_chat_request\<close>:
  signature, model and daily limit.
\<close>

definition admitted :: "env \<Rightarrow> ChatRequest \<Rightarrow> db \<Rightarrow> bool" where
  "admitted env cr d =
     (verify_signature env (public_key cr) (signature cr)
      \<and> \<not> model_not_allowed (check_user_pro_status env (public_key cr) d) (model_name cr)
      \<and> daily_limit_reached env (check_user_pro_status env (public_key cr) d)
            (today_request_count env (public_key cr) d) = None)"

text \<open>The row an admitted request creates, and the history query of its turn.\<close>

definition turn_row :: "env \<Rightarrow> ChatRequest \<Rightarrow> db \<Rightarrow> Requests" where
  "turn_row env cr d = new_request env cr (resolve_conversation_key env cr d) d"

definition turn_history :: "env \<Rightarrow> ChatRequest \<Rightarrow> db \<Rightarrow> Requests list" where
  "turn_history env cr d =
     conversation_history (public_key cr) (resolve_conversation_key env cr d)
       (add_request (turn_row env cr d) d)"

text \<open>The generation an admitted request starts when its tool list is \<open>ts\<close>.\<close>

definition turn_generation :: "env \<Rightarrow> ChatRequest \<Rightarrow> db \<Rightarrow> string list \<Rightarrow> started" where
  "turn_generation env cr d ts =
     start_generation env cr (resolve_model_name cr) (resolve_temperature cr)
       (turn_history env cr d) ts"

definition key_chunk :: "string \<Rightarrow> string" where
  "key_chunk key = json_dumps ''conversation_key'' key @ nl"

definition daily_allowance :: "env \<Rightarrow> bool \<Rightarrow> int" where
  "daily_allowance env is_pro_user =
     (if is_pro_user then PRO_USER_DAILY_LIMIT env else FREE_USER_DAILY_LIMIT env)"

text \<open>
  Two versions of a row are of the same turn when they differ at most in \<open>response\<close>
  and \<open>success\<close>, the two columns the callbacks write.
\<close>

definition same_turn :: "Requests \<Rightarrow> Requests \<Rightarrow> bool" where
  "same_turn r r' =
     (r'\<lparr>response := None, success := False\<rparr> = r\<lparr>response := None, success := False\<rparr>)"

text \<open>
  The final versions of the row of a turn: after a failure with message \<open>e\<close>, after the
  rejection by the tool limit, and after a generation that completed with fragments
  \<open>fs\<close> and \<open>n\<close> input tokens.
\<close>

definition failed_row :: "env \<Rightarrow> string \<Rightarrow> Requests \<Rightarrow> Requests" where
  "failed_row env e r =
     r\<lparr>success := False, response := Some (''Error: '' @ e),
       input_token_count := Some 0, output_token_count := Some 0,
       total_token_count := Some 0, verbose := Some (debug_output env)\<rparr>"

definition rejected_row :: "env \<Rightarrow> Requests \<Rightarrow> Requests" where
  "rejected_row env r =
     r\<lparr>success := False, response := Some (json_dumps ''error'' tool_limit_message),
       verbose := Some (debug_output env)\<rparr>"

definition completed_row :: "env \<Rightarrow> string list \<Rightarrow> nat \<Rightarrow> Requests \<Rightarrow> Requests" where
  "completed_row env fs n r =
     r\<lparr>success := True, response := Some (concat fs),
       input_token_count := Some n,
       output_token_count := Some (count_tokens env (concat fs)),
       total_token_count := Some (n + count_tokens env (concat fs)),
       verbose := Some (debug_output env)\<rparr>"

text \<open>The \<open>try\<close> block as an admitted request runs it.\<close>

definition turn_try :: "env \<Rightarrow> ChatRequest \<Rightarrow> db \<Rightarrow> string list \<times> db \<times> string option" where
  "turn_try env cr d =
     try_block env cr (check_user_pro_status env (public_key cr) d) (resolve_model_name cr)
       (resolve_temperature cr) (next_id d) (turn_history env cr d)
       (add_request (turn_row env cr d) d)"

section \<open>Example inputs\<close>

text \<open>
  A small environment: a signature is valid when it is \<open>sig:\<close> followed by the key,
  the draws are \<open>0, 1, 2, ...\<close>, a token is a character, and each of the two
  generation calls answers with a fixed generation.
\<close>

definition example_env :: "string generation \<Rightarrow> (log_op list) generation \<Rightarrow> env" where
  "example_env g1 g2 =
     \<lparr>verify_signature = (\<lambda>pk sg. sg = ''sig:'' @ pk),
      utcnow = 1000, now = 1000, func_now = 1000,
      random_index = (\<lambda>i. i),
      FREE_USER_DAILY_LIMIT = 10, PRO_USER_DAILY_LIMIT = 200,
      INFYR_API_KEY = ''infyr'', OPENROUTER_API_KEY = ''openrouter'',
      encode_len = length,
      debug_output = ''trace'',
      astream = (\<lambda>chat messages. g1),
      astream_log = (\<lambda>chat tls sys_msg chat_history input agent. g2)\<rparr>"

definition hello_then_boom :: "'a \<Rightarrow> 'a generation" where
  "hello_then_boom x = \<lparr>events = [Yielded x], raised = Some ''boom''\<rparr>"

definition hello_op :: "log_op list" where
  "hello_op = [\<lparr>op_kind = ''add'',
                op_path = ''/logs/ChatOpenAI/streamed_output_str/-'',
                op_value = Some ''Hello, ''\<rparr>]"

definition failing_env :: env where
  "failing_env = example_env (hello_then_boom ''Hello, '') (hello_then_boom hello_op)"

definition alice_request :: "AllowedModelName option \<Rightarrow> string list option \<Rightarrow> ChatRequest" where
  "alice_request m ts =
     \<lparr>public_key = ''alice'', signature = ''sig:alice'',
      agent_public = None, agent_private = None,
      req_conversation_key = None, req_message = ''hi'',
      model_name = m, temperature = None, tools = ts\<rparr>"

definition empty_db :: db where
  "empty_db = \<lparr>requests = [], users = []\<rparr>"

definition three_tools :: "string list" where
  "three_tools = [''jupiter_swap_tool'', ''rugcheck_token_information_tool'',
                  ''cmc_crypto_news_tool'']"

text \<open>A table with \<open>n\<close> rows of \<open>alice\<close>, all of today and of one conversation.\<close>

definition today_row :: "nat \<Rightarrow> Requests" where
  "today_row i =
     \<lparr>row_id = Suc i, pubkey = ''alice'', conversation_key = ''k'', input_params = None,
      message = Some ''question'', success = True, response = Some ''answer'',
      verbose = None, liked = None, input_token_count = None, output_token_count = None,
      total_token_count = None, time = 500 + i\<rparr>"

definition busy_db :: "nat \<Rightarrow> db" where
  "busy_db n = \<lparr>requests = map today_row [0..<n], users = []\<rparr>"

text \<open>The \<open>ChatOpenAI\<close> arguments of the Lumo branch, and two more tool lists.\<close>

definition infyr_chat :: "env \<Rightarrow> string \<Rightarrow> real \<Rightarrow> chat_model" where
  "infyr_chat env name temp =
     \<lparr>cm_model_name = name, cm_temperature = temp, cm_streaming = True,
      cm_max_tokens = Some 4096, cm_base_url = Some ''https://api.infyr.ai/v1'',
      cm_api_key = Some (INFYR_API_KEY env)\<rparr>"

definition unknown_tools :: "string list" where
  "unknown_tools = [''weather_tool'', ''calculator'', ''weather_tool'']"

definition same_tool_twice :: "string list" where
  "same_tool_twice = [''jupiter_swap_tool'', ''jupiter_swap_tool'']"

text \<open>A table without rows where \<open>alice\<close> holds a premium that has not run out.\<close>

definition pro_db :: db where
  "pro_db = \<lparr>requests = [],
             users = [\<lparr>user_id = 1, user_pubkey = ''alice'', premium_end = Some 2000\<rparr>]\<rparr>"


text \<open>The request of \<open>alice\<close> for her recent conversations.\<close>

definition alice_lists :: LastConversationsRequest where
  "alice_lists = \<lparr>lc_public_key = ''alice'', lc_signature = ''sig:alice''\<rparr>"

text \<open>A row is the latest of its conversation when no row of that user and key is later.\<close>

definition latest_of_conversation :: "string \<Rightarrow> db \<Rightarrow> Requests \<Rightarrow> bool" where
  "latest_of_conversation pk d r =
     (r \<in> set (requests d) \<and> pubkey r = pk
      \<and> time r = Max (set (map time (conversation_rows pk (conversation_key r) d))))"






text \<open>The example environment with the draws \<open>40, 43, 46, ...\<close>.\<close>

definition shuffled_env :: env where
  "shuffled_env = failing_env\<lparr>random_index := (\<lambda>i. 3 * i + 40)\<rparr>"

text \<open>One tool of the registry between two unknown identifiers.\<close>

definition mixed_tools :: "string list" where
  "mixed_tools = [''weather_tool'', ''jupiter_swap_tool'', ''calculator'']"

section \<open>Basic facts\<close>

lemma update_first_fresh:
  "\<forall>x \<in> set xs. \<not> p x \<Longrightarrow> p y \<Longrightarrow> update_first p f (xs @ [y]) = xs @ [f y]"
  by (induction xs) simp_all

lemma row_id_less_next_id:
  "r \<in> set (requests d) \<Longrightarrow> row_id r < next_id d"
proof -
  assume "r \<in> set (requests d)"
  then have "row_id r \<in> set (0 # map row_id (requests d))" by simp
  then have "row_id r \<le> Max (set (0 # map row_id (requests d)))"
    by (intro Max_ge) simp_all
  then show ?thesis by (simp add: next_id_def)
qed

lemma update_added:
  assumes "row_id r = next_id d"
  shows "update_request (next_id d) f (add_request r d) = add_request (f r) d"
proof -
  have "\<forall>x \<in> set (requests d). row_id x \<noteq> next_id d"
    using row_id_less_next_id by fastforce
  then show ?thesis
    using assms by (simp add: update_request_def add_request_def update_first_fresh)
qed

lemma same_turn_refl: "same_turn r r"
  by (simp add: same_turn_def)

lemma same_turn_trans: "same_turn r r1 \<Longrightarrow> same_turn r1 r2 \<Longrightarrow> same_turn r r2"
  by (simp add: same_turn_def)

lemma same_turn_row_id:
  assumes "same_turn r r'"
  shows "row_id r' = row_id r"
proof -
  have "row_id (r'\<lparr>response := None, success := False\<rparr>)
          = row_id (r\<lparr>response := None, success := False\<rparr>)"
    using assms by (simp only: same_turn_def)
  then show ?thesis by simp
qed

lemma same_turn_response: "same_turn r r' \<Longrightarrow> same_turn r (r'\<lparr>response := x\<rparr>)"
  by (simp add: same_turn_def)

lemma same_turn_success: "same_turn r r' \<Longrightarrow> same_turn r (r'\<lparr>success := y\<rparr>)"
  by (simp add: same_turn_def)

lemma apply_callback_added:
  assumes "row_id r = next_id d"
  shows "\<exists>h' r'. apply_callback (next_id d) c (h, add_request r d) = (h', add_request r' d)
           \<and> same_turn r r'"
proof (cases c)
  case On_llm_start
  then show ?thesis using same_turn_refl by auto
next
  case (On_llm_new_token token)
  show ?thesis
    unfolding On_llm_new_token apply_callback.simps on_llm_new_token_def Let_def prod.case
    using same_turn_refl [of r] same_turn_response [OF same_turn_refl, of r]
    by (auto simp add: update_added [OF assms])
next
  case On_llm_end
  show ?thesis
    unfolding On_llm_end apply_callback.simps on_llm_end_def prod.case
    using same_turn_success [OF same_turn_response [OF same_turn_refl], of r]
    by (simp add: update_added [OF assms]) blast
next
  case (On_llm_error e)
  show ?thesis
    unfolding On_llm_error apply_callback.simps on_llm_error_def prod.case
    using same_turn_response [OF same_turn_success [OF same_turn_refl], of r]
    by (simp add: update_added [OF assms]) blast
qed

lemma run_events_added:
  assumes "row_id r = next_id d"
  shows "\<exists>h' r'. run_events frags (next_id d) es (h, add_request r d, full, out)
           = (h', add_request r' d,
              full @ concat (concat (map frags (yielded es))),
              out @ concat (map frags (yielded es)))
           \<and> same_turn r r'"
  using assms
proof (induction es arbitrary: h r full out)
  case Nil
  then show ?case using same_turn_refl by auto
next
  case (Cons e es)
  show ?case
  proof (cases e)
    case (Callback c)
    obtain h1 r1 where step:
      "apply_callback (next_id d) c (h, add_request r d) = (h1, add_request r1 d)"
      and st1: "same_turn r r1"
      using apply_callback_added [OF Cons.prems] by blast
    have id1: "row_id r1 = next_id d"
      using Cons.prems same_turn_row_id [OF st1] by simp
    obtain h' r' where rest:
      "run_events frags (next_id d) es (h1, add_request r1 d, full, out)
       = (h', add_request r' d,
          full @ concat (concat (map frags (yielded es))),
          out @ concat (map frags (yielded es)))"
      and st2: "same_turn r1 r'"
      using Cons.IH [OF id1] by blast
    show ?thesis
      using Callback step rest same_turn_trans [OF st1 st2] by simp blast
  next
    case (Yielded a)
    obtain h' r' where rest:
      "run_events frags (next_id d) es
         (h, add_request r d, full @ concat (frags a), out @ frags a)
       = (h', add_request r' d,
          (full @ concat (frags a)) @ concat (concat (map frags (yielded es))),
          (out @ frags a) @ concat (map frags (yielded es)))"
      and st: "same_turn r r'"
      using Cons.IH [OF Cons.prems] by blast
    show ?thesis
      using Yielded rest st by simp blast
  qed
qed

section \<open>The outcome of a turn\<close>

lemma run_generation_raised:
  assumes "row_id r = next_id d" and "raised gen = Some e"
  shows "\<exists>r'. run_generation env (next_id d) name frags gen n (add_request r d)
           = (fragments frags gen, add_request r' d, Some e) \<and> same_turn r r'"
proof -
  obtain h' r' where run:
    "run_events frags (next_id d) (events gen) (new_StreamingCallback, add_request r d, [], [])
       = (h', add_request r' d,
          [] @ concat (concat (map frags (yielded (events gen)))),
          [] @ concat (map frags (yielded (events gen))))"
    and st: "same_turn r r'"
    using run_events_added [OF assms(1)] by blast
  show ?thesis
    using run st assms(2) by (simp add: run_generation_def fragments_def) blast
qed

lemma finish_turn_added:
  assumes "row_id r = next_id d" and "same_turn r r'"
  shows "finish_turn env (next_id d) name n (h, add_request r' d, full, out)
           = add_request
               (r\<lparr>success := True, response := Some full,
                  input_token_count := Some n,
                  output_token_count := Some (count_tokens env full),
                  total_token_count := Some (n + count_tokens env full)\<rparr>) d"
proof -
  have id': "row_id r' = next_id d"
    using assms same_turn_row_id by simp
  have row: "r'\<lparr>input_token_count := Some n,
                  output_token_count := Some (count_tokens env full),
                  total_token_count := Some (n + count_tokens env full),
                  response := Some full, success := True\<rparr>
        = r\<lparr>success := True, response := Some full,
                  input_token_count := Some n,
                  output_token_count := Some (count_tokens env full),
                  total_token_count := Some (n + count_tokens env full)\<rparr>"
    using assms(2) by (cases r, cases r') (simp add: same_turn_def)
  show ?thesis
    using row by (simp add: finish_turn_def Let_def on_llm_end_def update_added id')
qed

lemma run_generation_completed:
  assumes "row_id r = next_id d" and "raised gen = None"
  shows "run_generation env (next_id d) name frags gen n (add_request r d)
           = (fragments frags gen,
              add_request
               (r\<lparr>success := True, response := Some (concat (fragments frags gen)),
                  input_token_count := Some n,
                  output_token_count := Some (count_tokens env (concat (fragments frags gen))),
                  total_token_count := Some (n + count_tokens env (concat (fragments frags gen)))\<rparr>) d,
              None)"
proof -
  obtain h' r' where run:
    "run_events frags (next_id d) (events gen) (new_StreamingCallback, add_request r d, [], [])
       = (h', add_request r' d,
          [] @ concat (concat (map frags (yielded (events gen)))),
          [] @ concat (map frags (yielded (events gen))))"
    and st: "same_turn r r'"
    using run_events_added [OF assms(1)] by blast
  show ?thesis
    using run assms(2) finish_turn_added [OF assms(1) st]
    by (simp add: run_generation_def fragments_def)
qed

lemma turn_row_id: "row_id (turn_row env cr d) = next_id d"
  by (simp add: turn_row_def new_request_def)

lemma process_admitted:
  assumes "admitted env cr d"
  shows "process_chat_request env cr d =
     (case stream_response env cr (check_user_pro_status env (public_key cr) d)
             (resolve_conversation_key env cr d) (resolve_model_name cr)
             (resolve_temperature cr) (next_id d) (add_request (turn_row env cr d) d) of
        (out, d2) \<Rightarrow> (\<lparr>media_type = ''text/plain'', body = out\<rparr>, d2))"
  using assms
  by (simp add: process_chat_request_def admitted_def Let_def turn_row_def new_request_def)

lemma same_turn_failed:
  "same_turn r r' \<Longrightarrow> failed_row env e r' = failed_row env e r"
  by (cases r, cases r') (simp add: same_turn_def failed_row_def)

lemma stream_tools_none:
  assumes "row_id r = next_id d" and "tools cr = None"
  shows "stream_response env cr p key name temp (next_id d) (add_request r d)
           = ([key_chunk key, json_dumps ''error'' none_not_iterable],
              add_request (failed_row env none_not_iterable r) d)"
  using assms
  by (simp add: stream_response_def try_block_def except_block_def Let_def update_added
        key_chunk_def failed_row_def)

lemma stream_tool_limit:
  assumes "row_id r = next_id d" and "tools cr = Some ts" and "tool_limit_exceeded p ts"
  shows "stream_response env cr p key name temp (next_id d) (add_request r d)
           = ([key_chunk key, json_dumps ''error'' tool_limit_message],
              add_request (rejected_row env r) d)"
  using assms
  by (simp add: stream_response_def try_block_def Let_def update_added
        key_chunk_def rejected_row_def)

lemma try_block_started:
  assumes "tools cr = Some ts" and "\<not> tool_limit_exceeded p ts"
  shows "try_block env cr p name temp rid history d0 =
     (case start_generation env cr name temp history ts of
        Direct gen n \<Rightarrow> run_generation env rid name direct_fragments gen n d0
      | Agent gen n \<Rightarrow> run_generation env rid name agent_fragments gen n d0)"
  using assms by (simp add: try_block_def)

lemma try_block_raised:
  assumes "row_id r = next_id d" and "tools cr = Some ts" and "\<not> tool_limit_exceeded p ts"
    and "started_raised (start_generation env cr name temp history ts) = Some e"
  shows "\<exists>r'. try_block env cr p name temp (next_id d) history (add_request r d)
           = (started_fragments (start_generation env cr name temp history ts),
              add_request r' d, Some e) \<and> same_turn r r'"
proof (cases "start_generation env cr name temp history ts")
  case (Direct gen n)
  then have "raised gen = Some e" using assms(4) by simp
  from run_generation_raised [OF assms(1) this]
  show ?thesis using Direct by (simp add: try_block_started [OF assms(2,3)])
next
  case (Agent gen n)
  then have "raised gen = Some e" using assms(4) by simp
  from run_generation_raised [OF assms(1) this]
  show ?thesis using Agent by (simp add: try_block_started [OF assms(2,3)])
qed

lemma try_block_completed:
  assumes "row_id r = next_id d" and "tools cr = Some ts" and "\<not> tool_limit_exceeded p ts"
    and "started_raised (start_generation env cr name temp history ts) = None"
  shows "try_block env cr p name temp (next_id d) history (add_request r d)
           = (started_fragments (start_generation env cr name temp history ts),
              add_request
               (r\<lparr>success := True,
                  response := Some (concat (started_fragments (start_generation env cr name temp history ts))),
                  input_token_count := Some (started_input_tokens (start_generation env cr name temp history ts)),
                  output_token_count := Some (count_tokens env (concat (started_fragments (start_generation env cr name temp history ts)))),
                  total_token_count := Some (started_input_tokens (start_generation env cr name temp history ts)
                     + count_tokens env (concat (started_fragments (start_generation env cr name temp history ts))))\<rparr>) d,
              None)"
proof (cases "start_generation env cr name temp history ts")
  case (Direct gen n)
  then have "raised gen = None" using assms(4) by simp
  from run_generation_completed [OF assms(1) this]
  show ?thesis using Direct by (simp add: try_block_started [OF assms(2,3)])
next
  case (Agent gen n)
  then have "raised gen = None" using assms(4) by simp
  from run_generation_completed [OF assms(1) this]
  show ?thesis using Agent by (simp add: try_block_started [OF assms(2,3)])
qed

lemma stream_raised:
  assumes "row_id r = next_id d" and "tools cr = Some ts" and "\<not> tool_limit_exceeded p ts"
    and "started_raised (start_generation env cr name temp
            (conversation_history (public_key cr) key (add_request r d)) ts) = Some e"
  shows "stream_response env cr p key name temp (next_id d) (add_request r d)
           = (key_chunk key # started_fragments (start_generation env cr name temp
                  (conversation_history (public_key cr) key (add_request r d)) ts)
                @ [json_dumps ''error'' e],
              add_request (failed_row env e r) d)"
proof -
  obtain r' where tb:
    "try_block env cr p name temp (next_id d)
        (conversation_history (public_key cr) key (add_request r d)) (add_request r d)
       = (started_fragments (start_generation env cr name temp
            (conversation_history (public_key cr) key (add_request r d)) ts),
          add_request r' d, Some e)"
    and st: "same_turn r r'"
    using try_block_raised [OF assms] by blast
  have id': "row_id r' = next_id d"
    using assms(1) same_turn_row_id [OF st] by simp
  have "failed_row env e r' = failed_row env e r"
    by (rule same_turn_failed [OF st])
  then show ?thesis
    using tb id'
    by (simp add: stream_response_def except_block_def Let_def update_added
          key_chunk_def failed_row_def)
qed

lemma stream_completed:
  assumes "row_id r = next_id d" and "tools cr = Some ts" and "\<not> tool_limit_exceeded p ts"
    and "started_raised (start_generation env cr name temp
            (conversation_history (public_key cr) key (add_request r d)) ts) = None"
  shows "stream_response env cr p key name temp (next_id d) (add_request r d)
           = (key_chunk key # started_fragments (start_generation env cr name temp
                  (conversation_history (public_key cr) key (add_request r d)) ts),
              add_request
                (completed_row env
                   (started_fragments (start_generation env cr name temp
                      (conversation_history (public_key cr) key (add_request r d)) ts))
                   (started_input_tokens (start_generation env cr name temp
                      (conversation_history (public_key cr) key (add_request r d)) ts)) r) d)"
  using try_block_completed [OF assms] assms(1)
  by (simp add: stream_response_def Let_def update_added key_chunk_def completed_row_def)

lemma turn_tools_none:
  assumes "admitted env cr d" and "tools cr = None"
  shows "process_chat_request env cr d =
     (\<lparr>media_type = ''text/plain'',
       body = [key_chunk (resolve_conversation_key env cr d),
               json_dumps ''error'' none_not_iterable]\<rparr>,
      add_request (failed_row env none_not_iterable (turn_row env cr d)) d)"
  by (simp add: process_admitted [OF assms(1)] stream_tools_none [OF turn_row_id assms(2)])

lemma turn_tool_limit:
  assumes "admitted env cr d" and "tools cr = Some ts"
    and "tool_limit_exceeded (check_user_pro_status env (public_key cr) d) ts"
  shows "process_chat_request env cr d =
     (\<lparr>media_type = ''text/plain'',
       body = [key_chunk (resolve_conversation_key env cr d),
               json_dumps ''error'' tool_limit_message]\<rparr>,
      add_request (rejected_row env (turn_row env cr d)) d)"
  by (simp add: process_admitted [OF assms(1)] stream_tool_limit [OF turn_row_id assms(2,3)])

lemma turn_raised:
  assumes "admitted env cr d" and "tools cr = Some ts"
    and "\<not> tool_limit_exceeded (check_user_pro_status env (public_key cr) d) ts"
    and "started_raised (turn_generation env cr d ts) = Some e"
  shows "process_chat_request env cr d =
     (\<lparr>media_type = ''text/plain'',
       body = key_chunk (resolve_conversation_key env cr d)
                # started_fragments (turn_generation env cr d ts) @ [json_dumps ''error'' e]\<rparr>,
      add_request (failed_row env e (turn_row env cr d)) d)"
proof -
  have r: "started_raised (start_generation env cr (resolve_model_name cr) (resolve_temperature cr)
             (conversation_history (public_key cr) (resolve_conversation_key env cr d)
                (add_request (turn_row env cr d) d)) ts) = Some e"
    using assms(4) by (simp add: turn_generation_def turn_history_def)
  show ?thesis
    by (simp add: process_admitted [OF assms(1)] stream_raised [OF turn_row_id assms(2,3) r]
          turn_generation_def turn_history_def)
qed

lemma turn_completed:
  assumes "admitted env cr d" and "tools cr = Some ts"
    and "\<not> tool_limit_exceeded (check_user_pro_status env (public_key cr) d) ts"
    and "started_raised (turn_generation env cr d ts) = None"
  shows "process_chat_request env cr d =
     (\<lparr>media_type = ''text/plain'',
       body = key_chunk (resolve_conversation_key env cr d)
                # started_fragments (turn_generation env cr d ts)\<rparr>,
      add_request
        (completed_row env (started_fragments (turn_generation env cr d ts))
           (started_input_tokens (turn_generation env cr d ts)) (turn_row env cr d)) d)"
proof -
  have r: "started_raised (start_generation env cr (resolve_model_name cr) (resolve_temperature cr)
             (conversation_history (public_key cr) (resolve_conversation_key env cr d)
                (add_request (turn_row env cr d) d)) ts) = None"
    using assms(4) by (simp add: turn_generation_def turn_history_def)
  show ?thesis
    by (simp add: process_admitted [OF assms(1)] stream_completed [OF turn_row_id assms(2,3) r]
          turn_generation_def turn_history_def)
qed

text \<open>Every admitted request adds exactly one row and answers with the key first.\<close>

lemma turn_outcome:
  assumes "admitted env cr d"
  shows "\<exists>rest r. process_chat_request env cr d =
           (\<lparr>media_type = ''text/plain'',
             body = key_chunk (resolve_conversation_key env cr d) # rest\<rparr>,
            add_request r d)"
proof (cases "tools cr")
  case None
  then show ?thesis using turn_tools_none [OF assms] by blast
next
  case (Some ts)
  show ?thesis
  proof (cases "tool_limit_exceeded (check_user_pro_status env (public_key cr) d) ts")
    case True
    then show ?thesis using turn_tool_limit [OF assms Some] by blast
  next
    case False
    show ?thesis
    proof (cases "started_raised (turn_generation env cr d ts)")
      case None
      then show ?thesis using turn_completed [OF assms Some False] by blast
    next
      case (Some e)
      then show ?thesis using turn_raised [OF assms \<open>tools cr = Some ts\<close> False] by blast
    qed
  qed
qed

lemma example_admitted: "admitted (example_env g1 g2) (alice_request (Some Gpt_4_1_mini) ts) empty_db"
  by (simp add: admitted_def example_env_def alice_request_def empty_db_def
        check_user_pro_status_def model_not_allowed_def daily_limit_reached_def
        today_request_count_def)

lemma requested_three: "requested_tools three_tools = three_tools"
  by (simp add: requested_tools_def three_tools_def available_tools_def)

lemma try_block_raises_added:
  assumes "row_id r = next_id d"
    and "snd (snd (try_block env cr p name temp (next_id d) history (add_request r d))) = Some e"
  shows "\<exists>r'. fst (snd (try_block env cr p name temp (next_id d) history (add_request r d)))
              = add_request r' d \<and> same_turn r r'"
proof (cases "tools cr")
  case None
  then show ?thesis using same_turn_refl by (auto simp add: try_block_def)
next
  case (Some ts)
  show ?thesis
  proof (cases "tool_limit_exceeded p ts")
    case True
    then show ?thesis using assms(2) Some by (simp add: try_block_def)
  next
    case False
    show ?thesis
    proof (cases "started_raised (start_generation env cr name temp history ts)")
      case None
      then show ?thesis
        using assms(2) try_block_completed [OF assms(1) Some False None] by simp
    next
      case (Some e')
      then show ?thesis
        using try_block_raised [OF assms(1) \<open>tools cr = Some ts\<close> False Some] by auto
    qed
  qed
qed

lemma stream_exception:
  assumes "row_id r = next_id d"
    and "snd (snd (try_block env cr p name temp (next_id d)
            (conversation_history (public_key cr) key (add_request r d)) (add_request r d)))
         = Some e"
  shows "stream_response env cr p key name temp (next_id d) (add_request r d)
           = (key_chunk key
                # fst (try_block env cr p name temp (next_id d)
                        (conversation_history (public_key cr) key (add_request r d))
                        (add_request r d))
                @ [json_dumps ''error'' e],
              add_request (failed_row env e r) d)"
proof -
  obtain r' where db: "fst (snd (try_block env cr p name temp (next_id d)
            (conversation_history (public_key cr) key (add_request r d)) (add_request r d)))
         = add_request r' d" and st: "same_turn r r'"
    using try_block_raises_added [OF assms] by blast
  have id': "row_id r' = next_id d"
    using assms(1) same_turn_row_id [OF st] by simp
  have fr: "failed_row env e r' = failed_row env e r"
    by (rule same_turn_failed [OF st])
  obtain out d1 exc where tb: "try_block env cr p name temp (next_id d)
            (conversation_history (public_key cr) key (add_request r d)) (add_request r d)
         = (out, d1, exc)"
    by (metis prod_cases3)
  have "d1 = add_request r' d" and "exc = Some e"
    using tb db assms(2) by simp_all
  then show ?thesis
    using tb fr id'
    by (simp add: stream_response_def except_block_def Let_def update_added
          key_chunk_def failed_row_def)
qed

lemma turn_exception:
  assumes "admitted env cr d" and "snd (snd (turn_try env cr d)) = Some e"
  shows "process_chat_request env cr d =
     (\<lparr>media_type = ''text/plain'',
       body = key_chunk (resolve_conversation_key env cr d)
                # fst (turn_try env cr d) @ [json_dumps ''error'' e]\<rparr>,
      add_request (failed_row env e (turn_row env cr d)) d)"
proof -
  have r: "snd (snd (try_block env cr (check_user_pro_status env (public_key cr) d)
             (resolve_model_name cr) (resolve_temperature cr) (next_id d)
             (conversation_history (public_key cr) (resolve_conversation_key env cr d)
                (add_request (turn_row env cr d) d))
             (add_request (turn_row env cr d) d))) = Some e"
    using assms(2) by (simp add: turn_try_def turn_history_def)
  show ?thesis
    by (simp add: process_admitted [OF assms(1)] stream_exception [OF turn_row_id r]
          turn_try_def turn_history_def)
qed

lemma failed_row_fields:
  "success (failed_row env e r) = False"
  "response (failed_row env e r) = Some (''Error: '' @ e)"
  "input_token_count (failed_row env e r) = Some 0"
  "output_token_count (failed_row env e r) = Some 0"
  "total_token_count (failed_row env e r) = Some 0"
  by (simp_all add: failed_row_def)

lemma turn_try_started:
  assumes "tools cr = Some ts"
    and "\<not> tool_limit_exceeded (check_user_pro_status env (public_key cr) d) ts"
  shows "snd (snd (turn_try env cr d)) = started_raised (turn_generation env cr d ts)"
    and "fst (turn_try env cr d) = started_fragments (turn_generation env cr d ts)"
proof -
  show "snd (snd (turn_try env cr d)) = started_raised (turn_generation env cr d ts)"
  proof (cases "started_raised (turn_generation env cr d ts)")
    case None
    then show ?thesis
      using try_block_completed [OF turn_row_id [of env cr d] assms, of env "resolve_model_name cr"
          "resolve_temperature cr" "turn_history env cr d"]
      by (simp add: turn_try_def turn_generation_def)
  next
    case (Some e)
    then show ?thesis
      using try_block_raised [OF turn_row_id [of env cr d] assms, of env "resolve_model_name cr"
          "resolve_temperature cr" "turn_history env cr d" e]
      by (auto simp add: turn_try_def turn_generation_def)
  qed
  show "fst (turn_try env cr d) = started_fragments (turn_generation env cr d ts)"
  proof (cases "started_raised (turn_generation env cr d ts)")
    case None
    then show ?thesis
      using try_block_completed [OF turn_row_id [of env cr d] assms, of env "resolve_model_name cr"
          "resolve_temperature cr" "turn_history env cr d"]
      by (simp add: turn_try_def turn_generation_def)
  next
    case (Some e)
    then show ?thesis
      using try_block_raised [OF turn_row_id [of env cr d] assms, of env "resolve_model_name cr"
          "resolve_temperature cr" "turn_history env cr d" e]
      by (auto simp add: turn_try_def turn_generation_def)
  qed
qed

lemma example_raised:
  "started_raised (turn_generation (example_env g1 g2) cr d ts)
     = (if startswith (resolve_model_name cr) ''lumo-'' then raised g1 else raised g2)"
  by (simp add: turn_generation_def start_generation_def Let_def example_env_def
        split: prod.splits)

lemma example_fragments:
  "started_fragments (turn_generation (example_env g1 g2) cr d ts)
     = (if startswith (resolve_model_name cr) ''lumo-''
        then fragments direct_fragments g1 else fragments agent_fragments g2)"
  by (simp add: turn_generation_def start_generation_def Let_def example_env_def
        split: prod.splits)

lemma hello_direct: "fragments direct_fragments (hello_then_boom ''Hello, '') = [''Hello, '']"
  by (simp add: fragments_def hello_then_boom_def direct_fragments_def)

lemma hello_agent: "fragments agent_fragments (hello_then_boom hello_op) = [''Hello, '']"
  by (simp add: fragments_def hello_then_boom_def agent_fragments_def op_fragments_def
        hello_op_def startswith_def endswith_def)

lemma busy_count: "today_request_count (example_env g1 g2) ''alice'' (busy_db n) = n"
  by (simp add: today_request_count_def busy_db_def today_row_def example_env_def
        today_start_def day_def filter_map comp_def)

lemma busy_free: "\<not> check_user_pro_status (example_env g1 g2) ''alice'' (busy_db n)"
  by (simp add: check_user_pro_status_def busy_db_def)

lemma gate_rejects:
  assumes "verify_signature env (public_key cr) (signature cr)"
    and "daily_allowance env (check_user_pro_status env (public_key cr) d)
           \<le> int (today_request_count env (public_key cr) d)"
  shows "process_chat_request env cr d =
           (error_response
              (if model_not_allowed (check_user_pro_status env (public_key cr) d) (model_name cr)
               then model_gate_message
               else if check_user_pro_status env (public_key cr) d
                    then pro_limit_message else free_limit_message), d)"
proof (cases "model_not_allowed (check_user_pro_status env (public_key cr) d) (model_name cr)")
  case True
  then show ?thesis
    using assms(1) by (simp add: process_chat_request_def Let_def)
next
  case False
  have "daily_limit_reached env (check_user_pro_status env (public_key cr) d)
          (today_request_count env (public_key cr) d)
        = Some (if check_user_pro_status env (public_key cr) d
                then pro_limit_message else free_limit_message)"
    using assms(2) by (auto simp add: daily_allowance_def daily_limit_reached_def split: if_splits)
  then show ?thesis
    using assms(1) False by (simp add: process_chat_request_def Let_def)
qed

lemma below_allowance:
  assumes "int n = daily_allowance env pro - 1"
  shows "daily_limit_reached env pro n = None"
  using assms by (simp add: daily_allowance_def daily_limit_reached_def split: if_splits)

lemma turn_adds_row:
  assumes "admitted env cr d"
  shows "length (requests (snd (process_chat_request env cr d))) = Suc (length (requests d))"
  using turn_outcome [OF assms] by (auto simp add: add_request_def)

lemma generated_key_length: "length (generate_conversation_key env n) = n"
  by (simp add: generate_conversation_key_def)

lemma generated_key_chars: "set (generate_conversation_key env n) \<subseteq> set chars"
proof -
  have "length chars = 62" by (simp add: chars_def)
  then have "\<And>i. chars ! (random_index env i mod length chars) \<in> set chars"
    by (intro nth_mem) simp
  then show ?thesis by (auto simp add: generate_conversation_key_def)
qed

lemma minted_key:
  assumes "\<not> truthy (req_conversation_key cr)
           \<or> conversation_rows (public_key cr) (the (req_conversation_key cr)) d = []"
  shows "resolve_conversation_key env cr d = generate_conversation_key env 10"
  using assms by (auto simp add: resolve_conversation_key_def)

lemma distinct_add_tools: "distinct acc \<Longrightarrow> distinct (add_tools names acc)"
  by (induction names arbitrary: acc) (auto split: option.splits)

lemma requested_unknown:
  "\<forall>t \<in> set ts. map_of available_tools t = None \<Longrightarrow> requested_tools ts = []"
  by (simp add: requested_tools_def)

lemma lumo_backend:
  assumes "startswith (model_id a) ''lumo-''"
  shows "select_backend env (model_id a) temp tls = (infyr_chat env (model_id a) temp, [])"
  using assms
  by (cases a)
     (simp_all add: select_backend_def infyr_chat_def startswith_def lower_def lower_char_def)

lemma lumo_generation:
  assumes "model_name cr = Some a" and "startswith (model_id a) ''lumo-''"
  shows "turn_generation env cr d ts =
           Direct
             (astream env (infyr_chat env (model_id a) (resolve_temperature cr))
                (SystemMessage base_system_message # build_chat_history (turn_history env cr d)
                   @ [HumanMessage (req_message cr)]))
             (count_tokens env base_system_message
                + count_tokens_list env (map content (build_chat_history (turn_history env cr d)))
                + count_tokens env (req_message cr))"
proof -
  have n: "resolve_model_name cr = model_id a"
    using assms(1) by (simp add: resolve_model_name_def)
  show ?thesis
    using assms(2)
    by (simp add: turn_generation_def start_generation_def Let_def n lumo_backend [OF assms(2)])
qed

lemma turn_body:
  assumes "admitted env cr d" and "tools cr = Some ts"
    and "\<not> tool_limit_exceeded (check_user_pro_status env (public_key cr) d) ts"
  shows "body (fst (process_chat_request env cr d)) =
           key_chunk (resolve_conversation_key env cr d)
             # started_fragments (turn_generation env cr d ts)
             @ (case started_raised (turn_generation env cr d ts) of
                  None \<Rightarrow> [] | Some e \<Rightarrow> [json_dumps ''error'' e])"
proof (cases "started_raised (turn_generation env cr d ts)")
  case None
  then show ?thesis using turn_completed [OF assms None] by simp
next
  case (Some e)
  then show ?thesis using turn_raised [OF assms Some] by simp
qed

lemma lumo_admitted:
  "admitted failing_env (alice_request (Some Lumo_8b) ts) empty_db"
  by (simp add: admitted_def failing_env_def example_env_def alice_request_def empty_db_def
        check_user_pro_status_def model_not_allowed_def daily_limit_reached_def
        today_request_count_def startswith_def)


lemma format_conversations_Some:
  "format_conversations rows = Some cs \<Longrightarrow>
     length cs = length rows
     \<and> map timestamp cs = map time rows
     \<and> (\<forall>c \<in> set cs. \<exists>r \<in> set rows.
           cs_conversation_key c = conversation_key r \<and> timestamp c = time r
           \<and> (\<exists>m. message r = Some m \<and> last_message_preview c = message_preview m))
     \<and> (\<forall>r \<in> set rows. \<exists>c \<in> set cs.
           cs_conversation_key c = conversation_key r \<and> timestamp c = time r)"
proof (induction rows arbitrary: cs)
  case Nil
  then show ?case by simp
next
  case (Cons r rows)
  from Cons.prems obtain m cs' where m: "message r = Some m"
    and f: "format_conversations rows = Some cs'"
    and c: "cs = \<lparr>cs_conversation_key = conversation_key r,
                   last_message_preview = message_preview m, timestamp = time r\<rparr> # cs'"
    by (auto split: option.splits)
  from Cons.IH [OF f] show ?case
    using m c by auto
qed

lemma subq_member:
  "s \<in> set (latest_conversations_subq pk d) \<longleftrightarrow>
     (\<exists>r \<in> set (requests d). pubkey r = pk \<and> fst s = conversation_key r)
     \<and> snd s = Max (set (map time (conversation_rows pk (fst s) d)))"
  by (cases s) (auto simp add: latest_conversations_subq_def)

lemma join_member:
  "r \<in> set (concat (map (\<lambda>r. map (\<lambda>s. r) (filter (\<lambda>s. P r s) subq)) rows)) \<longleftrightarrow>
     r \<in> set rows \<and> (\<exists>s \<in> set subq. P r s)"
  by auto

lemma joined_rows:
  "set (filter (\<lambda>r. pubkey r = pk)
          (concat (map (\<lambda>r. map (\<lambda>s. r)
                               (filter (\<lambda>s. conversation_key r = fst s \<and> time r = snd s)
                                  (latest_conversations_subq pk d)))
                       (requests d))))
     = {r. latest_of_conversation pk d r}"
proof (intro set_eqI iffI)
  fix r
  assume "r \<in> set (filter (\<lambda>r. pubkey r = pk)
          (concat (map (\<lambda>r. map (\<lambda>s. r)
                               (filter (\<lambda>s. conversation_key r = fst s \<and> time r = snd s)
                                  (latest_conversations_subq pk d)))
                       (requests d))))"
  then have pk: "pubkey r = pk"
    and "r \<in> set (concat (map (\<lambda>r. map (\<lambda>s. r)
                               (filter (\<lambda>s. conversation_key r = fst s \<and> time r = snd s)
                                  (latest_conversations_subq pk d)))
                       (requests d)))"
    by simp_all
  then have r: "r \<in> set (requests d)"
    and "\<exists>s \<in> set (latest_conversations_subq pk d). conversation_key r = fst s \<and> time r = snd s"
    by (simp_all only: join_member)
  then obtain s where s: "s \<in> set (latest_conversations_subq pk d)"
    and k: "conversation_key r = fst s" and t: "time r = snd s"
    by blast
  have "snd s = Max (set (map time (conversation_rows pk (fst s) d)))"
    using s by (simp only: subq_member)
  then show "r \<in> {r. latest_of_conversation pk d r}"
    using pk r k t by (simp add: latest_of_conversation_def)
next
  fix r
  assume "r \<in> {r. latest_of_conversation pk d r}"
  then have r: "r \<in> set (requests d)" and pk: "pubkey r = pk"
    and t: "time r = Max (set (map time (conversation_rows pk (conversation_key r) d)))"
    by (simp_all add: latest_of_conversation_def)
  have "(conversation_key r, time r) \<in> set (latest_conversations_subq pk d)"
    unfolding subq_member using r pk t by auto
  then have "\<exists>s \<in> set (latest_conversations_subq pk d).
               conversation_key r = fst s \<and> time r = snd s"
    by force
  then have "r \<in> set (concat (map (\<lambda>r. map (\<lambda>s. r)
                               (filter (\<lambda>s. conversation_key r = fst s \<and> time r = snd s)
                                  (latest_conversations_subq pk d)))
                       (requests d)))"
    using r by (simp only: join_member)
  then show "r \<in> set (filter (\<lambda>r. pubkey r = pk)
          (concat (map (\<lambda>r. map (\<lambda>s. r)
                               (filter (\<lambda>s. conversation_key r = fst s \<and> time r = snd s)
                                  (latest_conversations_subq pk d)))
                       (requests d))))"
    using pk by simp
qed

lemma latest_conversations_set:
  "set (latest_conversations pk d) \<subseteq> {r. latest_of_conversation pk d r}"
proof -
  have "set (latest_conversations pk d)
          \<subseteq> set (order_by_time_desc (filter (\<lambda>r. pubkey r = pk)
          (concat (map (\<lambda>r. map (\<lambda>s. r)
                               (filter (\<lambda>s. conversation_key r = fst s \<and> time r = snd s)
                                  (latest_conversations_subq pk d)))
                       (requests d)))))"
    unfolding latest_conversations_def by (rule set_take_subset)
  then show ?thesis
    unfolding order_by_time_desc_def set_sort joined_rows .
qed

lemma order_by_time_desc_sorted:
  "sorted_wrt (\<lambda>a b. time b \<le> time a) (order_by_time_desc rows)"
  using sorted_sort_key [of "\<lambda>r. - int (time r)" rows]
  by (simp add: order_by_time_desc_def sorted_map)

lemma latest_conversations_sorted:
  "sorted_wrt (\<lambda>a b. time b \<le> time a) (latest_conversations pk d)"
  unfolding latest_conversations_def
  by (rule sorted_wrt_take) (rule order_by_time_desc_sorted)

lemma latest_conversations_length: "length (latest_conversations pk d) \<le> 5"
  by (simp add: latest_conversations_def)

lemma taken_are_newest:
  assumes "sorted_wrt (\<lambda>a b. time b \<le> time a) xs" and "x \<in> set xs"
  shows "x \<in> set (take n xs) \<or> (\<forall>a \<in> set (take n xs). time x \<le> time a)"
proof -
  have "sorted_wrt (\<lambda>a b. time b \<le> time a) (take n xs @ drop n xs)"
    using assms(1) by simp
  then have "\<forall>a \<in> set (take n xs). \<forall>b \<in> set (drop n xs). time b \<le> time a"
    by (simp only: sorted_wrt_append) blast
  moreover have "x \<in> set (take n xs) \<or> x \<in> set (drop n xs)"
    using assms(2) by (metis Un_iff append_take_drop_id set_append)
  ultimately show ?thesis by blast
qed

lemma latest_conversations_newest:
  assumes "latest_of_conversation pk d r"
  shows "r \<in> set (latest_conversations pk d)
         \<or> (\<forall>a \<in> set (latest_conversations pk d). time r \<le> time a)"
proof -
  have "r \<in> set (order_by_time_desc (filter (\<lambda>r. pubkey r = pk)
          (concat (map (\<lambda>r. map (\<lambda>s. r)
                               (filter (\<lambda>s. conversation_key r = fst s \<and> time r = snd s)
                                  (latest_conversations_subq pk d)))
                       (requests d)))))"
    unfolding order_by_time_desc_def set_sort joined_rows using assms by simp
  from taken_are_newest [OF order_by_time_desc_sorted this]
  show ?thesis unfolding latest_conversations_def .
qed

lemma latest_is_latest:
  assumes "latest_of_conversation pk d r" and "r' \<in> set (requests d)"
    and "pubkey r' = pk" and "conversation_key r' = conversation_key r"
  shows "time r' \<le> time r"
proof -
  have "time r' \<in> set (map time (conversation_rows pk (conversation_key r) d))"
    using assms(2,3,4) by (simp add: conversation_rows_def)
  then have "time r' \<le> Max (set (map time (conversation_rows pk (conversation_key r) d)))"
    by (intro Max_ge) simp_all
  then show ?thesis using assms(1) by (simp add: latest_of_conversation_def)
qed

lemma message_preview_facts:
  "length (message_preview m) \<le> 53"
  "take 50 (message_preview m) = take 50 m"
  "length m \<le> 50 \<Longrightarrow> message_preview m = m"
  "50 < length m \<Longrightarrow> message_preview m = take 50 m @ ''...''"
  by (simp_all add: message_preview_def)

lemma format_conversations_total:
  "\<forall>r \<in> set rows. message r \<noteq> None \<Longrightarrow> format_conversations rows \<noteq> None"
  by (induction rows) (auto split: option.splits)

lemma sorted_summaries:
  assumes "map timestamp cs = map time rows"
    and "sorted_wrt (\<lambda>a b. time b \<le> time a) rows"
  shows "sorted_wrt (\<lambda>a b. timestamp b \<le> timestamp a) cs"
proof -
  have "sorted_wrt (\<lambda>a b. b \<le> a) (map time rows)"
    using assms(2) by (simp add: sorted_wrt_map)
  then have "sorted_wrt (\<lambda>a b. b \<le> a) (map timestamp cs)"
    using assms(1) by simp
  then show ?thesis by (simp add: sorted_wrt_map)
qed














lemma chars_distinct: "distinct chars"
  by code_simp

lemma chars_length: "length chars = 62"
  by (simp add: chars_def)

lemma generated_key_nth:
  "i < n \<Longrightarrow> generate_conversation_key env n ! i = chars ! (random_index env i mod 62)"
  by (simp add: generate_conversation_key_def chars_length)

lemma generated_key_eq_iff:
  "generate_conversation_key env' n = generate_conversation_key env n
     \<longleftrightarrow> (\<forall>i < n. random_index env' i mod 62 = random_index env i mod 62)"
proof -
  have "\<And>a b. chars ! (a mod 62) = chars ! (b mod 62) \<longleftrightarrow> a mod 62 = b mod 62"
    using chars_distinct by (simp add: nth_eq_iff_index_eq chars_length)
  then show ?thesis
    by (auto simp add: generate_conversation_key_def chars_length)
qed

lemma shuffled_admitted:
  "admitted shuffled_env (alice_request (Some Gpt_4_1_mini) ts) empty_db"
  by (simp add: admitted_def shuffled_env_def failing_env_def example_env_def
        alice_request_def empty_db_def check_user_pro_status_def model_not_allowed_def
        daily_limit_reached_def today_request_count_def)

lemma requested_known:
  "requested_tools ts = filter (\<lambda>t. t \<in> fst ` set available_tools) ts"
  by (simp add: requested_tools_def map_of_eq_None_iff)

lemma registry_keys:
  "map fst available_tools =
     [''rugcheck_token_information_tool'', ''fluxbeam_token_price_tool'',
      ''jupiter_token_price_tool'', ''jupiter_token_information_tool'',
      ''jupiter_swap_tool'', ''dexscreener_top_boosts_tool'',
      ''dexscreener_token_information_tool'', ''birdeye_token_trending_tool'',
      ''birdeye_all_time_trades_tool'', ''cmc_crypto_news_tool'',
      ''cmc_trending_coins_tool'', ''cn_memecoins_news_tool'',
      ''geckoterminal_trending_pumpfun_tool'', ''coingecko_global_crypto_data_tool'',
      ''coingecko_trending_tool'', ''coingecko_exchange_rates_tool'',
      ''coingecko_coin_data_tool'', ''solana_send_sol_tool'',
      ''solana_send_spl_tokens_tool'', ''solana_burn_token_tool'',
      ''pumpfun_launch_coin_tool'']"
  by (simp add: available_tools_def)

section \<open>Claims\<close>

text \<open>
  C1 (as amended). A free-tier caller who passes the signature, model and daily-limit
  gates and whose tool list holds three identifiers of the registry is rejected by a
  streamed error message: the stream is the conversation key followed by the error
  object. The turn's row is not absent: exactly one row is appended for the attempt, and
  it is left with \<open>success = False\<close> and the error object as its response.
\<close>

theorem C1_free_tier_tool_limit:
  assumes "admitted env cr d"
    and "\<not> check_user_pro_status env (public_key cr) d"
    and "tools cr = Some ts"
    and "length (requested_tools ts) = 3"
  shows "body (fst (process_chat_request env cr d))
           = [key_chunk (resolve_conversation_key env cr d),
              json_dumps ''error'' tool_limit_message]
       \<and> requests (snd (process_chat_request env cr d))
           = requests d @ [rejected_row env (turn_row env cr d)]
       \<and> success (rejected_row env (turn_row env cr d)) = False
       \<and> response (rejected_row env (turn_row env cr d))
           = Some (json_dumps ''error'' tool_limit_message)"
proof -
  have "tool_limit_exceeded (check_user_pro_status env (public_key cr) d) ts"
    using assms(2,4) by (simp add: tool_limit_exceeded_def)
  from turn_tool_limit [OF assms(1,3) this]
  show ?thesis by (simp add: add_request_def rejected_row_def)
qed

text \<open>C1, witness: \<open>alice\<close>, free tier, three tools of the registry, on an empty table.\<close>

theorem C1_free_tier_tool_limit_witness:
  "admitted failing_env (alice_request (Some Gpt_4_1_mini) (Some three_tools)) empty_db
   \<and> \<not> check_user_pro_status failing_env
         (public_key (alice_request (Some Gpt_4_1_mini) (Some three_tools))) empty_db
   \<and> tools (alice_request (Some Gpt_4_1_mini) (Some three_tools)) = Some three_tools
   \<and> length (requested_tools three_tools) = 3
   \<and> body (fst (process_chat_request failing_env
                   (alice_request (Some Gpt_4_1_mini) (Some three_tools)) empty_db))
        = [key_chunk (resolve_conversation_key failing_env
                        (alice_request (Some Gpt_4_1_mini) (Some three_tools)) empty_db),
           json_dumps ''error'' tool_limit_message]"
proof -
  have a: "admitted failing_env (alice_request (Some Gpt_4_1_mini) (Some three_tools)) empty_db"
    unfolding failing_env_def by (rule example_admitted)
  have b: "\<not> check_user_pro_status failing_env
         (public_key (alice_request (Some Gpt_4_1_mini) (Some three_tools))) empty_db"
    by (simp add: check_user_pro_status_def empty_db_def)
  have c: "tools (alice_request (Some Gpt_4_1_mini) (Some three_tools)) = Some three_tools"
    by (simp add: alice_request_def)
  have e: "length (requested_tools three_tools) = 3"
    by (simp add: requested_three) (simp add: three_tools_def)
  show ?thesis
    using C1_free_tier_tool_limit [OF a b c e] a b c e by simp
qed

text \<open>
  C1, counterexample to "zero rows are created": for the same request the table goes
  from no row to one row.
\<close>

theorem C1_counterexample:
  "verify_signature failing_env ''alice'' ''sig:alice''
   \<and> \<not> check_user_pro_status failing_env ''alice'' empty_db
   \<and> length (requested_tools three_tools) = 3
   \<and> length (requests empty_db) = 0
   \<and> length (requests (snd (process_chat_request failing_env
                (alice_request (Some Gpt_4_1_mini) (Some three_tools)) empty_db))) = 1"
proof -
  have a: "admitted failing_env (alice_request (Some Gpt_4_1_mini) (Some three_tools)) empty_db"
    unfolding failing_env_def by (rule example_admitted)
  have c: "tools (alice_request (Some Gpt_4_1_mini) (Some three_tools)) = Some three_tools"
    by (simp add: alice_request_def)
  have e: "length (requested_tools three_tools) = 3"
    by (simp add: requested_three) (simp add: three_tools_def)
  have x: "tool_limit_exceeded
             (check_user_pro_status failing_env
                (public_key (alice_request (Some Gpt_4_1_mini) (Some three_tools))) empty_db)
             three_tools"
    using e by (simp add: tool_limit_exceeded_def check_user_pro_status_def empty_db_def)
  have v: "verify_signature failing_env ''alice'' ''sig:alice''"
    by (simp add: failing_env_def example_env_def)
  have f: "\<not> check_user_pro_status failing_env ''alice'' empty_db"
    by (simp add: check_user_pro_status_def empty_db_def)
  show ?thesis
    using turn_tool_limit [OF a c x] e v f by (simp add: add_request_def empty_db_def)
qed

text \<open>
  C2 (as amended). When the generation of an admitted turn yields the text \<open>Hello, \<close>
  and then raises an exception with message \<open>e\<close>, the caller receives the key, the
  text and, last, the error object; the row of the turn ends with \<open>success = False\<close>,
  its three token counts \<open>0\<close>, and the response \<open>Error: e\<close>. The stored response is
  the formatted error, never the partial text.
\<close>

theorem C2_failure_after_partial_text:
  assumes "admitted env cr d"
    and "tools cr = Some ts"
    and "\<not> tool_limit_exceeded (check_user_pro_status env (public_key cr) d) ts"
    and "started_fragments (turn_generation env cr d ts) = [''Hello, '']"
    and "started_raised (turn_generation env cr d ts) = Some e"
  shows "body (fst (process_chat_request env cr d))
           = [key_chunk (resolve_conversation_key env cr d), ''Hello, '',
              json_dumps ''error'' e]
       \<and> requests (snd (process_chat_request env cr d))
           = requests d @ [failed_row env e (turn_row env cr d)]
       \<and> response (failed_row env e (turn_row env cr d)) = Some (''Error: '' @ e)
       \<and> response (failed_row env e (turn_row env cr d)) \<noteq> Some ''Hello, ''
       \<and> success (failed_row env e (turn_row env cr d)) = False
       \<and> input_token_count (failed_row env e (turn_row env cr d)) = Some 0
       \<and> output_token_count (failed_row env e (turn_row env cr d)) = Some 0
       \<and> total_token_count (failed_row env e (turn_row env cr d)) = Some 0"
  using turn_raised [OF assms(1,2,3,5)] assms(4)
  by (simp add: add_request_def failed_row_fields)

text \<open>C2, witness: the agent generation of the example yields \<open>Hello, \<close> and raises \<open>boom\<close>.\<close>

theorem C2_failure_after_partial_text_witness:
  "admitted failing_env (alice_request (Some Gpt_4_1_mini) (Some [])) empty_db
   \<and> tools (alice_request (Some Gpt_4_1_mini) (Some [])) = Some []
   \<and> \<not> tool_limit_exceeded (check_user_pro_status failing_env
          (public_key (alice_request (Some Gpt_4_1_mini) (Some []))) empty_db) []
   \<and> started_fragments (turn_generation failing_env
          (alice_request (Some Gpt_4_1_mini) (Some [])) empty_db []) = [''Hello, '']
   \<and> started_raised (turn_generation failing_env
          (alice_request (Some Gpt_4_1_mini) (Some [])) empty_db []) = Some ''boom''
   \<and> body (fst (process_chat_request failing_env
                   (alice_request (Some Gpt_4_1_mini) (Some [])) empty_db))
        = [key_chunk (resolve_conversation_key failing_env
                        (alice_request (Some Gpt_4_1_mini) (Some [])) empty_db),
           ''Hello, '', json_dumps ''error'' ''boom'']"
proof -
  have a: "admitted failing_env (alice_request (Some Gpt_4_1_mini) (Some [])) empty_db"
    unfolding failing_env_def by (rule example_admitted)
  have b: "tools (alice_request (Some Gpt_4_1_mini) (Some [])) = Some []"
    by (simp add: alice_request_def)
  have c: "\<not> tool_limit_exceeded (check_user_pro_status failing_env
          (public_key (alice_request (Some Gpt_4_1_mini) (Some []))) empty_db) []"
    by (simp add: tool_limit_exceeded_def requested_tools_def)
  have m: "\<not> startswith (resolve_model_name (alice_request (Some Gpt_4_1_mini) (Some []))) ''lumo-''"
    by (simp add: resolve_model_name_def alice_request_def startswith_def)
  have f: "started_fragments (turn_generation failing_env
          (alice_request (Some Gpt_4_1_mini) (Some [])) empty_db []) = [''Hello, '']"
    unfolding failing_env_def by (simp add: example_fragments m hello_agent)
  have r: "started_raised (turn_generation failing_env
          (alice_request (Some Gpt_4_1_mini) (Some [])) empty_db []) = Some ''boom''"
    unfolding failing_env_def by (simp add: example_raised m hello_then_boom_def)
  show ?thesis
    using C2_failure_after_partial_text [OF a b c f r] a b c f r by simp
qed

text \<open>
  C2, counterexample to "the stored response equals \<open>Hello, \<close>": in the example the
  stored response is \<open>Error: boom\<close>.
\<close>

theorem C2_counterexample:
  "started_fragments (turn_generation failing_env
      (alice_request (Some Gpt_4_1_mini) (Some [])) empty_db []) = [''Hello, '']
   \<and> started_raised (turn_generation failing_env
      (alice_request (Some Gpt_4_1_mini) (Some [])) empty_db []) = Some ''boom''
   \<and> response (last (requests (snd (process_chat_request failing_env
        (alice_request (Some Gpt_4_1_mini) (Some [])) empty_db)))) = Some ''Error: boom''
   \<and> response (last (requests (snd (process_chat_request failing_env
        (alice_request (Some Gpt_4_1_mini) (Some [])) empty_db)))) \<noteq> Some ''Hello, ''"
proof -
  have a: "admitted failing_env (alice_request (Some Gpt_4_1_mini) (Some [])) empty_db"
    unfolding failing_env_def by (rule example_admitted)
  have b: "tools (alice_request (Some Gpt_4_1_mini) (Some [])) = Some []"
    by (simp add: alice_request_def)
  have c: "\<not> tool_limit_exceeded (check_user_pro_status failing_env
          (public_key (alice_request (Some Gpt_4_1_mini) (Some []))) empty_db) []"
    by (simp add: tool_limit_exceeded_def requested_tools_def)
  have m: "\<not> startswith (resolve_model_name (alice_request (Some Gpt_4_1_mini) (Some []))) ''lumo-''"
    by (simp add: resolve_model_name_def alice_request_def startswith_def)
  have f: "started_fragments (turn_generation failing_env
          (alice_request (Some Gpt_4_1_mini) (Some [])) empty_db []) = [''Hello, '']"
    unfolding failing_env_def by (simp add: example_fragments m hello_agent)
  have r: "started_raised (turn_generation failing_env
          (alice_request (Some Gpt_4_1_mini) (Some [])) empty_db []) = Some ''boom''"
    unfolding failing_env_def by (simp add: example_raised m hello_then_boom_def)
  show ?thesis
    using turn_raised [OF a b c r] f r by (simp add: add_request_def failed_row_fields)
qed

text \<open>
  C3. When the \<open>try\<close> block of an admitted turn raises an exception with message \<open>e\<close>
  (the row exists by then), the exception is handled inside \<open>stream_response\<close>: the
  stream is the key, the fragments yielded before the exception, and exactly one error
  object after them; the row is left with \<open>success = False\<close>, the response
  \<open>Error: e\<close> and the three token counts \<open>0\<close>. The result is a value of
  \<open>process_chat_request\<close> like any other: nothing propagates to the caller.
\<close>

theorem C3_generation_failure:
  assumes "admitted env cr d"
    and "snd (snd (turn_try env cr d)) = Some e"
  shows "body (fst (process_chat_request env cr d))
           = key_chunk (resolve_conversation_key env cr d)
               # fst (turn_try env cr d) @ [json_dumps ''error'' e]
       \<and> requests (snd (process_chat_request env cr d))
           = requests d @ [failed_row env e (turn_row env cr d)]
       \<and> success (failed_row env e (turn_row env cr d)) = False
       \<and> response (failed_row env e (turn_row env cr d)) = Some (''Error: '' @ e)
       \<and> input_token_count (failed_row env e (turn_row env cr d)) = Some 0
       \<and> output_token_count (failed_row env e (turn_row env cr d)) = Some 0
       \<and> total_token_count (failed_row env e (turn_row env cr d)) = Some 0"
  using turn_exception [OF assms]
  by (simp add: add_request_def failed_row_fields)

text \<open>C3, witness: the direct generation of the example (a Lumo model) raises \<open>boom\<close>.\<close>

theorem C3_generation_failure_witness:
  "admitted failing_env (alice_request (Some Lumo_8b) (Some [])) empty_db
   \<and> snd (snd (turn_try failing_env (alice_request (Some Lumo_8b) (Some [])) empty_db))
        = Some ''boom''
   \<and> body (fst (process_chat_request failing_env
                   (alice_request (Some Lumo_8b) (Some [])) empty_db))
        = [key_chunk (resolve_conversation_key failing_env
                        (alice_request (Some Lumo_8b) (Some [])) empty_db),
           ''Hello, '', json_dumps ''error'' ''boom'']
   \<and> response (last (requests (snd (process_chat_request failing_env
                   (alice_request (Some Lumo_8b) (Some [])) empty_db))))
        = Some ''Error: boom''"
proof -
  have a: "admitted failing_env (alice_request (Some Lumo_8b) (Some [])) empty_db"
    by (simp add: admitted_def failing_env_def example_env_def alice_request_def empty_db_def
        check_user_pro_status_def model_not_allowed_def daily_limit_reached_def
        today_request_count_def startswith_def)
  have b: "tools (alice_request (Some Lumo_8b) (Some [])) = Some []"
    by (simp add: alice_request_def)
  have c: "\<not> tool_limit_exceeded (check_user_pro_status failing_env
          (public_key (alice_request (Some Lumo_8b) (Some []))) empty_db) []"
    by (simp add: tool_limit_exceeded_def requested_tools_def)
  have m: "startswith (resolve_model_name (alice_request (Some Lumo_8b) (Some []))) ''lumo-''"
    by (simp add: resolve_model_name_def alice_request_def startswith_def)
  have r: "snd (snd (turn_try failing_env (alice_request (Some Lumo_8b) (Some [])) empty_db))
        = Some ''boom''"
  proof -
    have "started_raised (turn_generation failing_env
            (alice_request (Some Lumo_8b) (Some [])) empty_db []) = Some ''boom''"
      unfolding failing_env_def by (simp add: example_raised m hello_then_boom_def)
    then show ?thesis by (simp only: turn_try_started(1) [OF b c])
  qed
  have f: "fst (turn_try failing_env (alice_request (Some Lumo_8b) (Some [])) empty_db)
        = [''Hello, '']"
  proof -
    have "started_fragments (turn_generation failing_env
            (alice_request (Some Lumo_8b) (Some [])) empty_db []) = [''Hello, '']"
      unfolding failing_env_def by (simp add: example_fragments m hello_direct)
    then show ?thesis by (simp only: turn_try_started(2) [OF b c])
  qed
  show ?thesis
    using C3_generation_failure [OF a r] a r f by (simp add: failed_row_fields)
qed

text \<open>
  C4. For every request that passes the signature, model and daily-limit gates, the
  stream is not empty and its first fragment is the JSON object of the resolved
  conversation key, followed by a newline; every other fragment comes after it.
\<close>

theorem C4_key_first:
  assumes "admitted env cr d"
  shows "media_type (fst (process_chat_request env cr d)) = ''text/plain''
       \<and> body (fst (process_chat_request env cr d)) \<noteq> []
       \<and> hd (body (fst (process_chat_request env cr d)))
           = json_dumps ''conversation_key'' (resolve_conversation_key env cr d) @ nl"
  using turn_outcome [OF assms] by (auto simp add: key_chunk_def)

text \<open>C4, witness: the example request for \<open>gpt-4.1-mini\<close>.\<close>

theorem C4_key_first_witness:
  "admitted failing_env (alice_request (Some Gpt_4_1_mini) (Some [])) empty_db
   \<and> hd (body (fst (process_chat_request failing_env
                       (alice_request (Some Gpt_4_1_mini) (Some [])) empty_db)))
       = json_dumps ''conversation_key''
           (resolve_conversation_key failing_env
              (alice_request (Some Gpt_4_1_mini) (Some [])) empty_db) @ nl"
proof -
  have a: "admitted failing_env (alice_request (Some Gpt_4_1_mini) (Some [])) empty_db"
    unfolding failing_env_def by (rule example_admitted)
  show ?thesis
    using C4_key_first [OF a] a by simp
qed

text \<open>
  C5. Let \<open>n\<close> be the number of rows of the caller since UTC midnight and
  \<open>daily_allowance\<close> the limit of the caller's tier (10 and 200 by default). For every
  caller with a valid signature: when \<open>n\<close> has reached the allowance, the request is
  rejected with a single streamed error object and the table is unchanged; the object
  carries the daily-limit message of the tier, unless the model check, which comes
  first, has already rejected the request with its own message. When \<open>n\<close> is one
  below the allowance, the daily-limit check lets the request through, and a request
  that also passes the model check is admitted and gets its row.
\<close>

theorem C5_daily_quota:
  assumes "verify_signature env (public_key cr) (signature cr)"
    and "pro = check_user_pro_status env (public_key cr) d"
    and "n = today_request_count env (public_key cr) d"
  shows "(daily_allowance env pro \<le> int n \<longrightarrow>
            process_chat_request env cr d =
              (error_response
                 (if model_not_allowed pro (model_name cr) then model_gate_message
                  else if pro then pro_limit_message else free_limit_message), d))
       \<and> (int n = daily_allowance env pro - 1 \<longrightarrow>
            daily_limit_reached env pro n = None
            \<and> (\<not> model_not_allowed pro (model_name cr) \<longrightarrow>
                 admitted env cr d
                 \<and> length (requests (snd (process_chat_request env cr d)))
                     = Suc (length (requests d))))"
proof (intro conjI impI)
  assume "daily_allowance env pro \<le> int n"
  then show "process_chat_request env cr d =
              (error_response
                 (if model_not_allowed pro (model_name cr) then model_gate_message
                  else if pro then pro_limit_message else free_limit_message), d)"
    using gate_rejects [OF assms(1)] assms(2,3) by simp
next
  assume b: "int n = daily_allowance env pro - 1"
  show "daily_limit_reached env pro n = None"
    by (rule below_allowance [OF b])
  assume m: "\<not> model_not_allowed pro (model_name cr)"
  show a: "admitted env cr d"
    using assms m below_allowance [OF b] by (simp add: admitted_def)
  show "length (requests (snd (process_chat_request env cr d))) = Suc (length (requests d))"
    by (rule turn_adds_row [OF a])
qed

text \<open>
  C5, witness: \<open>alice\<close>, free tier with allowance 10, with 10 rows today (rejected,
  table unchanged) and with 9 rows today (admitted, a tenth row is added).
\<close>

theorem C5_daily_quota_witness:
  "verify_signature failing_env (public_key (alice_request (Some Gpt_4_1_mini) (Some [])))
      (signature (alice_request (Some Gpt_4_1_mini) (Some [])))
   \<and> daily_allowance failing_env False = 10
   \<and> today_request_count failing_env ''alice'' (busy_db 10) = 10
   \<and> process_chat_request failing_env (alice_request (Some Gpt_4_1_mini) (Some [])) (busy_db 10)
        = (error_response free_limit_message, busy_db 10)
   \<and> today_request_count failing_env ''alice'' (busy_db 9) = 9
   \<and> \<not> model_not_allowed False (model_name (alice_request (Some Gpt_4_1_mini) (Some [])))
   \<and> admitted failing_env (alice_request (Some Gpt_4_1_mini) (Some [])) (busy_db 9)
   \<and> length (requests (snd (process_chat_request failing_env
         (alice_request (Some Gpt_4_1_mini) (Some [])) (busy_db 9)))) = 10"
proof -
  have v: "verify_signature failing_env (public_key (alice_request (Some Gpt_4_1_mini) (Some [])))
      (signature (alice_request (Some Gpt_4_1_mini) (Some [])))"
    by (simp add: failing_env_def example_env_def alice_request_def)
  have pk: "public_key (alice_request (Some Gpt_4_1_mini) (Some [])) = ''alice''"
    by (simp add: alice_request_def)
  have p: "\<And>n. False = check_user_pro_status failing_env
              (public_key (alice_request (Some Gpt_4_1_mini) (Some []))) (busy_db n)"
    unfolding failing_env_def pk using busy_free by simp
  have c: "\<And>n. n = today_request_count failing_env
              (public_key (alice_request (Some Gpt_4_1_mini) (Some []))) (busy_db n)"
    unfolding failing_env_def pk by (simp add: busy_count)
  have al: "daily_allowance failing_env False = 10"
    by (simp add: daily_allowance_def failing_env_def example_env_def)
  have m: "\<not> model_not_allowed False (model_name (alice_request (Some Gpt_4_1_mini) (Some [])))"
    by (simp add: model_not_allowed_def alice_request_def)
  have l: "length (requests (busy_db 9)) = 9"
    by (simp add: busy_db_def)
  show ?thesis
    using C5_daily_quota [OF v p [of 10] c [of 10]] C5_daily_quota [OF v p [of 9] c [of 9]]
      v al m l c [of 10] c [of 9] pk
    by simp
qed

text \<open>
  C6 (as amended). For an admitted request that names a Lumo model, whose tool list is
  present and is not rejected by the free-tier tool limit, the backend is the Infyr
  endpoint with \<open>max_tokens = 4096\<close> and the tool list is replaced by the empty
  list; the generation is the direct call \<open>chat.astream(messages)\<close>, which takes no
  tools, and the stream is the key followed by the fragments of that call (and the error
  object if it raises). The requested tools have no other influence.
\<close>

theorem C6_lumo_direct_mode:
  assumes "admitted env cr d"
    and "model_name cr = Some a"
    and "startswith (model_id a) ''lumo-''"
    and "tools cr = Some ts"
    and "\<not> tool_limit_exceeded (check_user_pro_status env (public_key cr) d) ts"
    and "chat = infyr_chat env (model_id a) (resolve_temperature cr)"
    and "messages = SystemMessage base_system_message # build_chat_history (turn_history env cr d)
                      @ [HumanMessage (req_message cr)]"
  shows "select_backend env (model_id a) (resolve_temperature cr) tls = (chat, [])
       \<and> cm_max_tokens chat = Some 4096
       \<and> cm_base_url chat = Some ''https://api.infyr.ai/v1''
       \<and> cm_api_key chat = Some (INFYR_API_KEY env)
       \<and> (\<exists>n. turn_generation env cr d ts = Direct (astream env chat messages) n)
       \<and> body (fst (process_chat_request env cr d))
           = key_chunk (resolve_conversation_key env cr d)
               # fragments direct_fragments (astream env chat messages)
               @ (case raised (astream env chat messages) of
                    None \<Rightarrow> [] | Some e \<Rightarrow> [json_dumps ''error'' e])"
  using lumo_backend [OF assms(3), of env "resolve_temperature cr" tls]
    lumo_generation [OF assms(2,3), of env d ts] turn_body [OF assms(1,4,5)] assms(6,7)
  by (simp add: infyr_chat_def)

text \<open>
  C6, witness: a pro caller asks for \<open>lumo-8b\<close> with two tools; the direct generation runs.
\<close>

theorem C6_lumo_direct_mode_witness:
  "admitted failing_env (alice_request (Some Lumo_8b) (Some same_tool_twice))
      pro_db
   \<and> check_user_pro_status failing_env ''alice''
      pro_db
   \<and> startswith (model_id Lumo_8b) ''lumo-''
   \<and> body (fst (process_chat_request failing_env
        (alice_request (Some Lumo_8b) (Some same_tool_twice))
        pro_db))
      = [key_chunk ''abcdefghij'', ''Hello, '', json_dumps ''error'' ''boom'']"
proof -
  let ?d = "pro_db"
  let ?cr = "alice_request (Some Lumo_8b) (Some same_tool_twice)"
  have pro: "check_user_pro_status failing_env ''alice'' ?d"
    by (simp add: check_user_pro_status_def failing_env_def example_env_def pro_db_def)
  have pk: "public_key ?cr = ''alice''"
    by (simp add: alice_request_def)
  have a: "admitted failing_env ?cr ?d"
    using pro
    by (simp add: admitted_def pk model_not_allowed_def daily_limit_reached_def
          today_request_count_def)
       (simp add: failing_env_def example_env_def alice_request_def pro_db_def)
  have m: "model_name ?cr = Some Lumo_8b"
    by (simp add: alice_request_def)
  have s: "startswith (model_id Lumo_8b) ''lumo-''"
    by (simp add: startswith_def)
  have t: "tools ?cr = Some same_tool_twice"
    by (simp add: alice_request_def)
  have x: "\<not> tool_limit_exceeded (check_user_pro_status failing_env (public_key ?cr) ?d)
              same_tool_twice"
    using pro by (simp add: tool_limit_exceeded_def pk)
  have k: "resolve_conversation_key failing_env ?cr ?d = ''abcdefghij''"
    by code_simp
  have g: "\<And>c ms. astream failing_env c ms = hello_then_boom ''Hello, ''"
    by (simp add: failing_env_def example_env_def)
  show ?thesis
    using C6_lumo_direct_mode [OF a m s t x refl refl] a pro s
    by (simp add: k g hello_direct) (simp add: hello_then_boom_def)
qed

text \<open>
  C6, counterexample to "regardless of the requested capability list": a free-tier
  caller asks for \<open>lumo-8b\<close> with three tools of the registry. The \<open>try\<close> block
  yields the limit error and returns; no generation runs.
\<close>

theorem C6_counterexample:
  "verify_signature failing_env ''alice'' ''sig:alice''
   \<and> model_name (alice_request (Some Lumo_8b) (Some three_tools)) = Some Lumo_8b
   \<and> startswith (model_id Lumo_8b) ''lumo-''
   \<and> body (fst (process_chat_request failing_env
         (alice_request (Some Lumo_8b) (Some three_tools)) empty_db))
       = [key_chunk (resolve_conversation_key failing_env
                  (alice_request (Some Lumo_8b) (Some three_tools)) empty_db),
          json_dumps ''error'' tool_limit_message]
   \<and> snd (snd (turn_try failing_env
         (alice_request (Some Lumo_8b) (Some three_tools)) empty_db)) = None
   \<and> fst (turn_try failing_env
         (alice_request (Some Lumo_8b) (Some three_tools)) empty_db)
       = [json_dumps ''error'' tool_limit_message]"
proof -
  let ?cr = "alice_request (Some Lumo_8b) (Some three_tools)"
  have a: "admitted failing_env ?cr empty_db"
    by (rule lumo_admitted)
  have t: "tools ?cr = Some three_tools"
    by (simp add: alice_request_def)
  have x: "tool_limit_exceeded (check_user_pro_status failing_env (public_key ?cr) empty_db)
             three_tools"
    by (simp add: tool_limit_exceeded_def check_user_pro_status_def empty_db_def
          requested_three) (simp add: three_tools_def)
  have v: "verify_signature failing_env ''alice'' ''sig:alice''"
    by (simp add: failing_env_def example_env_def)
  have m: "model_name ?cr = Some Lumo_8b"
    by (simp add: alice_request_def)
  have s: "startswith (model_id Lumo_8b) ''lumo-''"
    by (simp add: startswith_def)
  have y: "turn_try failing_env ?cr empty_db
             = ([json_dumps ''error'' tool_limit_message],
                fst (snd (turn_try failing_env ?cr empty_db)), None)"
    using x t by (simp add: turn_try_def try_block_def)
  have y1: "snd (snd (turn_try failing_env ?cr empty_db)) = None"
    using y by (metis snd_conv)
  have y2: "fst (turn_try failing_env ?cr empty_db) = [json_dumps ''error'' tool_limit_message]"
    using y by (metis fst_conv)
  show ?thesis
    using turn_tool_limit [OF a t x] v m s y1 y2 by simp
qed

text \<open>
  C9. For every caller with a valid signature, \<open>get_last_conversations\<close> returns at
  most 5 summaries, ordered by timestamp from newest to oldest. Each summary stands for
  a row of the caller that is the latest of its conversation: it carries that
  conversation's key, the row's timestamp, and as preview the row's message cut to its
  first 50 characters (with the marker \<open>...\<close> appended when the message was longer).
  The conversations left out are not more recent than those returned. The operation
  succeeds whenever every row has a message.
\<close>

theorem C9_recent_conversations:
  assumes "verify_signature env (lc_public_key req) (lc_signature req)"
  shows "length (conversations (get_last_conversations env req d)) \<le> 5
       \<and> sorted_wrt (\<lambda>a b. timestamp b \<le> timestamp a)
           (conversations (get_last_conversations env req d))
       \<and> (\<forall>c \<in> set (conversations (get_last_conversations env req d)).
            \<exists>r. latest_of_conversation (lc_public_key req) d r
              \<and> cs_conversation_key c = conversation_key r
              \<and> timestamp c = time r
              \<and> (\<forall>r' \<in> set (requests d).
                    pubkey r' = lc_public_key req \<and> conversation_key r' = conversation_key r
                    \<longrightarrow> time r' \<le> time r)
              \<and> (\<exists>m. message r = Some m
                    \<and> last_message_preview c = message_preview m
                    \<and> take 50 (last_message_preview c) = take 50 m
                    \<and> length (last_message_preview c) \<le> 53))
       \<and> (lc_success (get_last_conversations env req d) \<longrightarrow>
            (\<forall>r. latest_of_conversation (lc_public_key req) d r \<longrightarrow>
               (\<exists>c \<in> set (conversations (get_last_conversations env req d)).
                   cs_conversation_key c = conversation_key r \<and> timestamp c = time r)
               \<or> (\<forall>c \<in> set (conversations (get_last_conversations env req d)).
                   time r \<le> timestamp c)))
       \<and> ((\<forall>r \<in> set (requests d). message r \<noteq> None) \<longrightarrow>
            lc_success (get_last_conversations env req d))"
proof -
  let ?pk = "lc_public_key req"
  let ?rows = "latest_conversations ?pk d"
  let ?res = "get_last_conversations env req d"
  show ?thesis
  proof (cases "format_conversations ?rows")
    case (Some cs)
    have ok: "format_conversations ?rows = Some cs" "conversations ?res = cs" "lc_success ?res"
      using assms Some by (simp_all add: get_last_conversations_def)
    note f = format_conversations_Some [OF ok(1)]
    have len: "length cs \<le> 5"
      using f latest_conversations_length [of ?pk d] by simp
    have srt: "sorted_wrt (\<lambda>a b. timestamp b \<le> timestamp a) cs"
      using f latest_conversations_sorted [of ?pk d] by (intro sorted_summaries) simp_all
    have each: "\<forall>c \<in> set cs.
            \<exists>r. latest_of_conversation ?pk d r
              \<and> cs_conversation_key c = conversation_key r
              \<and> timestamp c = time r
              \<and> (\<forall>r' \<in> set (requests d).
                    pubkey r' = ?pk \<and> conversation_key r' = conversation_key r
                    \<longrightarrow> time r' \<le> time r)
              \<and> (\<exists>m. message r = Some m
                    \<and> last_message_preview c = message_preview m
                    \<and> take 50 (last_message_preview c) = take 50 m
                    \<and> length (last_message_preview c) \<le> 53)"
    proof
      fix c assume "c \<in> set cs"
      then obtain r m where r: "r \<in> set ?rows"
        and k: "cs_conversation_key c = conversation_key r" and t: "timestamp c = time r"
        and m: "message r = Some m" and p: "last_message_preview c = message_preview m"
        using f by blast
      have l: "latest_of_conversation ?pk d r"
        using r latest_conversations_set [of ?pk d] by blast
      have "\<forall>r' \<in> set (requests d).
                    pubkey r' = ?pk \<and> conversation_key r' = conversation_key r
                    \<longrightarrow> time r' \<le> time r"
        using latest_is_latest [OF l] by blast
      then show "\<exists>r. latest_of_conversation ?pk d r
              \<and> cs_conversation_key c = conversation_key r
              \<and> timestamp c = time r
              \<and> (\<forall>r' \<in> set (requests d).
                    pubkey r' = ?pk \<and> conversation_key r' = conversation_key r
                    \<longrightarrow> time r' \<le> time r)
              \<and> (\<exists>m. message r = Some m
                    \<and> last_message_preview c = message_preview m
                    \<and> take 50 (last_message_preview c) = take 50 m
                    \<and> length (last_message_preview c) \<le> 53)"
        using l k t m p message_preview_facts(1,2) [of m] by auto
    qed
    have newest: "\<forall>r. latest_of_conversation ?pk d r \<longrightarrow>
               (\<exists>c \<in> set cs. cs_conversation_key c = conversation_key r \<and> timestamp c = time r)
               \<or> (\<forall>c \<in> set cs. time r \<le> timestamp c)"
    proof (intro allI impI)
      fix r assume l: "latest_of_conversation ?pk d r"
      from latest_conversations_newest [OF l]
      show "(\<exists>c \<in> set cs. cs_conversation_key c = conversation_key r \<and> timestamp c = time r)
               \<or> (\<forall>c \<in> set cs. time r \<le> timestamp c)"
      proof
        assume "r \<in> set ?rows"
        then show ?thesis using f by blast
      next
        assume a: "\<forall>a \<in> set ?rows. time r \<le> time a"
        have "\<forall>c \<in> set cs. time r \<le> timestamp c"
        proof
          fix c assume "c \<in> set cs"
          then obtain r' where "r' \<in> set ?rows" "timestamp c = time r'"
            using f by blast
          then show "time r \<le> timestamp c" using a by simp
        qed
        then show ?thesis by blast
      qed
    qed
    show ?thesis
      using ok(2,3) len srt each newest by simp
  next
    case None
    have fail: "format_conversations ?rows = None" "conversations ?res = []" "\<not> lc_success ?res"
      using assms None by (simp_all add: get_last_conversations_def)
    have "\<not> (\<forall>r \<in> set (requests d). message r \<noteq> None)"
    proof
      assume all: "\<forall>r \<in> set (requests d). message r \<noteq> None"
      have "set ?rows \<subseteq> set (requests d)"
        using latest_conversations_set [of ?pk d] by (auto simp add: latest_of_conversation_def)
      then have "\<forall>r \<in> set ?rows. message r \<noteq> None" using all by blast
      from format_conversations_total [OF this] fail(1) show False by simp
    qed
    then show ?thesis
      using fail(2,3) by simp
  qed
qed

text \<open>
  C9, witness: three turns of \<open>alice\<close> in one conversation give one summary, that of
  the latest turn; a message of 60 characters is previewed by its first 50 and the marker.
\<close>

theorem C9_recent_conversations_witness:
  "verify_signature failing_env (lc_public_key alice_lists) (lc_signature alice_lists)
   \<and> conversations (get_last_conversations failing_env alice_lists (busy_db 3))
        = [\<lparr>cs_conversation_key = ''k'', last_message_preview = ''question'',
            timestamp = 502\<rparr>]
   \<and> length (conversations (get_last_conversations failing_env alice_lists (busy_db 3))) \<le> 5
   \<and> message_preview (replicate 60 (CHR ''a'')) = replicate 50 (CHR ''a'') @ ''...''"
proof -
  have v: "verify_signature failing_env (lc_public_key alice_lists) (lc_signature alice_lists)"
    by (simp add: failing_env_def example_env_def alice_lists_def)
  have e: "get_last_conversations failing_env alice_lists (busy_db 3)
        = \<lparr>lc_success = True,
           conversations = [\<lparr>cs_conversation_key = ''k'', last_message_preview = ''question'',
                             timestamp = 502\<rparr>],
           lc_error = None\<rparr>"
    by code_simp
  have p: "message_preview (replicate 60 (CHR ''a'')) = replicate 50 (CHR ''a'') @ ''...''"
    by (simp add: message_preview_def)
  show ?thesis
    using C9_recent_conversations [OF v, of "busy_db 3"] v p by (simp add: e)
qed




text \<open>
  C8. For every admitted request whose conversation key is absent, empty, or carried by
  no row of the caller, the key of the turn is a newly generated one: 10 characters, each
  a letter or a digit of \<open>chars\<close>. It is sent as the first chunk of the stream; no
  error arises from the unknown key. The key is made by the random draws and by nothing
  else: its \<open>i\<close>-th character is the character of \<open>chars\<close> that the \<open>i\<close>-th
  draw selects, and two runs give the same key exactly when their ten draws select the
  same positions.
\<close>

theorem C8_unknown_key_minted:
  assumes "admitted env cr d"
    and "\<not> truthy (req_conversation_key cr)
         \<or> conversation_rows (public_key cr) (the (req_conversation_key cr)) d = []"
  shows "resolve_conversation_key env cr d = generate_conversation_key env 10
       \<and> length (generate_conversation_key env 10) = 10
       \<and> set (generate_conversation_key env 10) \<subseteq> set chars
       \<and> body (fst (process_chat_request env cr d)) \<noteq> []
       \<and> hd (body (fst (process_chat_request env cr d)))
           = json_dumps ''conversation_key'' (generate_conversation_key env 10) @ nl
       \<and> chars = ''abcdefghijklmnopqrstuvwxyzABCDEFGHIJKLMNOPQRSTUVWXYZ0123456789''
       \<and> (\<forall>i < 10. generate_conversation_key env 10 ! i
                       = chars ! (random_index env i mod 62))
       \<and> (\<forall>env'. generate_conversation_key env' 10 = generate_conversation_key env 10
                   \<longleftrightarrow> (\<forall>i < 10. random_index env' i mod 62
                                        = random_index env i mod 62))"
proof -
  have old: "resolve_conversation_key env cr d = generate_conversation_key env 10
       \<and> length (generate_conversation_key env 10) = 10
       \<and> set (generate_conversation_key env 10) \<subseteq> set chars
       \<and> body (fst (process_chat_request env cr d)) \<noteq> []
       \<and> hd (body (fst (process_chat_request env cr d)))
           = json_dumps ''conversation_key'' (generate_conversation_key env 10) @ nl"
    using turn_outcome [OF assms(1)] minted_key [OF assms(2)]
      generated_key_length [of env 10] generated_key_chars [of env 10]
    by (auto simp add: key_chunk_def)
  have c: "chars = ''abcdefghijklmnopqrstuvwxyzABCDEFGHIJKLMNOPQRSTUVWXYZ0123456789''"
    by (simp add: chars_def)
  have n: "\<forall>i < 10. generate_conversation_key env 10 ! i
                       = chars ! (random_index env i mod 62)"
    by (simp add: generated_key_nth)
  have e: "\<forall>env'. generate_conversation_key env' 10 = generate_conversation_key env 10
                   \<longleftrightarrow> (\<forall>i < 10. random_index env' i mod 62
                                        = random_index env i mod 62)"
    by (simp only: generated_key_eq_iff) simp
  show ?thesis
    using old c n e by (simp only:) simp
qed

text \<open>
  C8, witness: the example request carries no key; with the draws \<open>40, 43, ..., 67\<close>
  the key is \<open>ORUX0369cf\<close>, while the draws \<open>0, 1, ..., 9\<close> give \<open>abcdefghij\<close>.
\<close>

theorem C8_unknown_key_minted_witness:
  "admitted shuffled_env (alice_request (Some Gpt_4_1_mini) (Some [])) empty_db
   \<and> req_conversation_key (alice_request (Some Gpt_4_1_mini) (Some [])) = None
   \<and> random_index shuffled_env 8 mod 62 = 2
   \<and> generate_conversation_key shuffled_env 10 ! 8 = chars ! 2
   \<and> generate_conversation_key shuffled_env 10 = ''ORUX0369cf''
   \<and> generate_conversation_key failing_env 10 = ''abcdefghij''
   \<and> hd (body (fst (process_chat_request shuffled_env
                       (alice_request (Some Gpt_4_1_mini) (Some [])) empty_db)))
       = json_dumps ''conversation_key'' ''ORUX0369cf'' @ nl
   \<and> json_dumps ''conversation_key'' ''ORUX0369cf'' @ nl
       = ''{'' @ [CHR 0x22] @ ''conversation_key'' @ [CHR 0x22] @ '': ''
           @ [CHR 0x22] @ ''ORUX0369cf'' @ [CHR 0x22] @ ''}'' @ [CHR 0x0A]"
proof -
  have a: "admitted shuffled_env (alice_request (Some Gpt_4_1_mini) (Some [])) empty_db"
    by (rule shuffled_admitted)
  have j: "json_dumps ''conversation_key'' ''ORUX0369cf'' @ nl
       = ''{'' @ [CHR 0x22] @ ''conversation_key'' @ [CHR 0x22] @ '': ''
           @ [CHR 0x22] @ ''ORUX0369cf'' @ [CHR 0x22] @ ''}'' @ [CHR 0x0A]"
    by code_simp
  have k: "req_conversation_key (alice_request (Some Gpt_4_1_mini) (Some [])) = None"
    by (simp add: alice_request_def)
  have b: "\<not> truthy (req_conversation_key (alice_request (Some Gpt_4_1_mini) (Some [])))
           \<or> conversation_rows (public_key (alice_request (Some Gpt_4_1_mini) (Some [])))
                (the (req_conversation_key (alice_request (Some Gpt_4_1_mini) (Some []))))
                empty_db = []"
    by (simp add: k)
  have g: "generate_conversation_key shuffled_env 10 = ''ORUX0369cf''"
    by code_simp
  have g0: "generate_conversation_key failing_env 10 = ''abcdefghij''"
    by code_simp
  have r: "random_index shuffled_env 8 mod 62 = 2"
    by (simp add: shuffled_env_def)
  note th = C8_unknown_key_minted [OF a b]
  have h: "hd (body (fst (process_chat_request shuffled_env
                       (alice_request (Some Gpt_4_1_mini) (Some [])) empty_db)))
       = json_dumps ''conversation_key'' ''ORUX0369cf'' @ nl"
    using th g by simp
  have "\<forall>i < 10. generate_conversation_key shuffled_env 10 ! i
                       = chars ! (random_index shuffled_env i mod 62)"
    using th by blast
  then have "generate_conversation_key shuffled_env 10 ! 8
                       = chars ! (random_index shuffled_env 8 mod 62)"
    by simp
  then have n: "generate_conversation_key shuffled_env 10 ! 8 = chars ! 2"
    by (simp only: r)
  show ?thesis
    using a k r n g g0 h j by blast
qed

text \<open>
  C10. For an admitted free-tier request with tool list \<open>ts\<close>, the limit is decided on
  \<open>requested_tools ts\<close>: the entries of \<open>ts\<close> that are keys of the registry, in
  their order and with their repetitions; identifiers outside the registry are left
  out before anything is counted. The limit is exceeded exactly when two or more entries
  remain. So a list of unknown identifiers only, however long, does not trigger the
  limit, and neither does one registry entry among any number of unknown identifiers:
  the \<open>try\<close> block goes on to the generation and the stream is the key and what the
  generation yields. A list with two or more registry entries triggers the limit, and the
  stream is the key and the limit error; this holds whether or not the entries are
  different. Duplicates are removed only later, by \<open>add_tools\<close>, whose result has no
  repetition.
\<close>

theorem C10_limit_counts_known_entries:
  assumes "admitted env cr d"
    and "\<not> check_user_pro_status env (public_key cr) d"
    and "tools cr = Some ts"
  shows "((\<forall>t \<in> set ts. map_of available_tools t = None) \<longrightarrow>
            \<not> tool_limit_exceeded (check_user_pro_status env (public_key cr) d) ts
            \<and> fst (turn_try env cr d) = started_fragments (turn_generation env cr d ts)
            \<and> snd (snd (turn_try env cr d)) = started_raised (turn_generation env cr d ts))
       \<and> (2 \<le> length (requested_tools ts) \<longrightarrow>
            tool_limit_exceeded (check_user_pro_status env (public_key cr) d) ts
            \<and> body (fst (process_chat_request env cr d))
                = [key_chunk (resolve_conversation_key env cr d),
                   json_dumps ''error'' tool_limit_message])
       \<and> distinct (add_tools (requested_tools ts) [WalletPortfolioTool, TokenIdentificationTool])
       \<and> requested_tools ts = filter (\<lambda>t. t \<in> fst ` set available_tools) ts
       \<and> map fst available_tools =
           [''rugcheck_token_information_tool'', ''fluxbeam_token_price_tool'',
            ''jupiter_token_price_tool'', ''jupiter_token_information_tool'',
            ''jupiter_swap_tool'', ''dexscreener_top_boosts_tool'',
            ''dexscreener_token_information_tool'', ''birdeye_token_trending_tool'',
            ''birdeye_all_time_trades_tool'', ''cmc_crypto_news_tool'',
            ''cmc_trending_coins_tool'', ''cn_memecoins_news_tool'',
            ''geckoterminal_trending_pumpfun_tool'', ''coingecko_global_crypto_data_tool'',
            ''coingecko_trending_tool'', ''coingecko_exchange_rates_tool'',
            ''coingecko_coin_data_tool'', ''solana_send_sol_tool'',
            ''solana_send_spl_tokens_tool'', ''solana_burn_token_tool'',
            ''pumpfun_launch_coin_tool'']
       \<and> (tool_limit_exceeded (check_user_pro_status env (public_key cr) d) ts
            \<longleftrightarrow> 2 \<le> length (filter (\<lambda>t. t \<in> fst ` set available_tools) ts))
       \<and> (length (filter (\<lambda>t. t \<in> fst ` set available_tools) ts) \<le> 1 \<longrightarrow>
            \<not> tool_limit_exceeded (check_user_pro_status env (public_key cr) d) ts
            \<and> fst (turn_try env cr d) = started_fragments (turn_generation env cr d ts)
            \<and> snd (snd (turn_try env cr d)) = started_raised (turn_generation env cr d ts)
            \<and> body (fst (process_chat_request env cr d))
                = key_chunk (resolve_conversation_key env cr d)
                    # started_fragments (turn_generation env cr d ts)
                    @ (case started_raised (turn_generation env cr d ts) of
                         None \<Rightarrow> [] | Some e \<Rightarrow> [json_dumps ''error'' e]))"
proof -
  let ?x = "tool_limit_exceeded (check_user_pro_status env (public_key cr) d) ts"
  have iff: "?x \<longleftrightarrow> 2 \<le> length (filter (\<lambda>t. t \<in> fst ` set available_tools) ts)"
    using assms(2) by (auto simp add: tool_limit_exceeded_def requested_known)
  have unknown: "(\<forall>t \<in> set ts. map_of available_tools t = None) \<longrightarrow>
            \<not> ?x
            \<and> fst (turn_try env cr d) = started_fragments (turn_generation env cr d ts)
            \<and> snd (snd (turn_try env cr d)) = started_raised (turn_generation env cr d ts)"
  proof
    assume u: "\<forall>t \<in> set ts. map_of available_tools t = None"
    have n: "\<not> ?x"
      using requested_unknown [OF u] by (simp add: tool_limit_exceeded_def)
    show "\<not> ?x
            \<and> fst (turn_try env cr d) = started_fragments (turn_generation env cr d ts)
            \<and> snd (snd (turn_try env cr d)) = started_raised (turn_generation env cr d ts)"
      using n turn_try_started [OF assms(3) n] by simp
  qed
  have many: "2 \<le> length (requested_tools ts) \<longrightarrow>
            ?x \<and> body (fst (process_chat_request env cr d))
                = [key_chunk (resolve_conversation_key env cr d),
                   json_dumps ''error'' tool_limit_message]"
  proof
    assume k: "2 \<le> length (requested_tools ts)"
    have x: "?x"
      using k assms(2) by (simp add: tool_limit_exceeded_def)
    show "?x \<and> body (fst (process_chat_request env cr d))
                = [key_chunk (resolve_conversation_key env cr d),
                   json_dumps ''error'' tool_limit_message]"
      using x turn_tool_limit [OF assms(1,3) x] by simp
  qed
  have dist: "distinct (add_tools (requested_tools ts)
                          [WalletPortfolioTool, TokenIdentificationTool])"
    by (rule distinct_add_tools) simp
  have few: "length (filter (\<lambda>t. t \<in> fst ` set available_tools) ts) \<le> 1 \<longrightarrow>
            \<not> ?x
            \<and> fst (turn_try env cr d) = started_fragments (turn_generation env cr d ts)
            \<and> snd (snd (turn_try env cr d)) = started_raised (turn_generation env cr d ts)
            \<and> body (fst (process_chat_request env cr d))
                = key_chunk (resolve_conversation_key env cr d)
                    # started_fragments (turn_generation env cr d ts)
                    @ (case started_raised (turn_generation env cr d ts) of
                         None \<Rightarrow> [] | Some e \<Rightarrow> [json_dumps ''error'' e])"
  proof
    assume "length (filter (\<lambda>t. t \<in> fst ` set available_tools) ts) \<le> 1"
    then have n: "\<not> ?x" using iff by simp
    show "\<not> ?x
            \<and> fst (turn_try env cr d) = started_fragments (turn_generation env cr d ts)
            \<and> snd (snd (turn_try env cr d)) = started_raised (turn_generation env cr d ts)
            \<and> body (fst (process_chat_request env cr d))
                = key_chunk (resolve_conversation_key env cr d)
                    # started_fragments (turn_generation env cr d ts)
                    @ (case started_raised (turn_generation env cr d ts) of
                         None \<Rightarrow> [] | Some e \<Rightarrow> [json_dumps ''error'' e])"
      using n turn_try_started [OF assms(3) n] turn_body [OF assms(1,3) n] by simp
  qed
  show ?thesis
    using unknown many dist requested_known [of ts] registry_keys iff few
    by (intro conjI)
qed

text \<open>
  C10, witness: three unknown identifiers pass; the same registry key given twice is
  rejected; one registry key between two unknown identifiers passes and the generation runs.
\<close>

theorem C10_limit_counts_known_entries_witness:
  "admitted failing_env (alice_request (Some Gpt_4_1_mini) (Some unknown_tools)) empty_db
   \<and> list_all (\<lambda>t. map_of available_tools t = None) unknown_tools
   \<and> \<not> tool_limit_exceeded False unknown_tools
   \<and> admitted failing_env (alice_request (Some Gpt_4_1_mini) (Some same_tool_twice)) empty_db
   \<and> requested_tools same_tool_twice = same_tool_twice
   \<and> set (requested_tools same_tool_twice) = {''jupiter_swap_tool''}
   \<and> tool_limit_exceeded False same_tool_twice
   \<and> body (fst (process_chat_request failing_env
         (alice_request (Some Gpt_4_1_mini) (Some same_tool_twice)) empty_db))
       = [key_chunk (resolve_conversation_key failing_env
                  (alice_request (Some Gpt_4_1_mini) (Some same_tool_twice)) empty_db),
          json_dumps ''error'' tool_limit_message]
   \<and> admitted failing_env (alice_request (Some Gpt_4_1_mini) (Some mixed_tools)) empty_db
   \<and> filter (\<lambda>t. t \<in> fst ` set available_tools) mixed_tools = [''jupiter_swap_tool'']
   \<and> \<not> tool_limit_exceeded False mixed_tools
   \<and> body (fst (process_chat_request failing_env
         (alice_request (Some Gpt_4_1_mini) (Some mixed_tools)) empty_db))
       = [key_chunk (resolve_conversation_key failing_env
                  (alice_request (Some Gpt_4_1_mini) (Some mixed_tools)) empty_db),
          ''Hello, '', json_dumps ''error'' ''boom'']"
proof -
  have a: "\<And>ts. admitted failing_env (alice_request (Some Gpt_4_1_mini) ts) empty_db"
    unfolding failing_env_def by (rule example_admitted)
  have f: "\<And>ts. \<not> check_user_pro_status failing_env
         (public_key (alice_request (Some Gpt_4_1_mini) ts)) empty_db"
    by (simp add: check_user_pro_status_def empty_db_def)
  have p: "\<And>ts. check_user_pro_status failing_env
         (public_key (alice_request (Some Gpt_4_1_mini) ts)) empty_db = False"
    using f by simp
  have t: "\<And>ts. tools (alice_request (Some Gpt_4_1_mini) (Some ts)) = Some ts"
    by (simp add: alice_request_def)
  have u: "\<forall>t \<in> set unknown_tools. map_of available_tools t = None"
    by (simp add: unknown_tools_def available_tools_def)
  have la: "list_all (\<lambda>t. map_of available_tools t = None) unknown_tools"
    using u by (simp only: list_all_iff)
  have r: "requested_tools same_tool_twice = same_tool_twice"
    by (simp add: requested_tools_def same_tool_twice_def available_tools_def)
  have s: "set (requested_tools same_tool_twice) = {''jupiter_swap_tool''}"
    unfolding r by (simp add: same_tool_twice_def)
  have l: "2 \<le> length (requested_tools same_tool_twice)"
    unfolding r by (simp add: same_tool_twice_def)
  have mx: "filter (\<lambda>t. t \<in> fst ` set available_tools) mixed_tools = [''jupiter_swap_tool'']"
    unfolding requested_known [symmetric]
    by (simp add: requested_tools_def mixed_tools_def available_tools_def)
  have ml: "length (filter (\<lambda>t. t \<in> fst ` set available_tools) mixed_tools) \<le> 1"
    by (simp only: mx) simp
  note th1 = C10_limit_counts_known_entries [OF a f t, of unknown_tools]
  note th2 = C10_limit_counts_known_entries [OF a f t, of same_tool_twice]
  note th3 = C10_limit_counts_known_entries [OF a f t, of mixed_tools]
  have n1: "\<not> tool_limit_exceeded False unknown_tools"
    using th1 u p by simp
  have x2: "tool_limit_exceeded False same_tool_twice"
    using th2 l p by simp
  have b2: "body (fst (process_chat_request failing_env
         (alice_request (Some Gpt_4_1_mini) (Some same_tool_twice)) empty_db))
       = [key_chunk (resolve_conversation_key failing_env
                  (alice_request (Some Gpt_4_1_mini) (Some same_tool_twice)) empty_db),
          json_dumps ''error'' tool_limit_message]"
    using th2 l by blast
  have n3: "\<not> tool_limit_exceeded False mixed_tools"
    using th3 ml p by simp
  have m: "\<not> startswith (resolve_model_name
              (alice_request (Some Gpt_4_1_mini) (Some mixed_tools))) ''lumo-''"
    by (simp add: resolve_model_name_def alice_request_def startswith_def)
  have fr: "started_fragments (turn_generation failing_env
          (alice_request (Some Gpt_4_1_mini) (Some mixed_tools)) empty_db mixed_tools)
          = [''Hello, '']"
    unfolding failing_env_def by (simp add: example_fragments m hello_agent)
  have ra: "started_raised (turn_generation failing_env
          (alice_request (Some Gpt_4_1_mini) (Some mixed_tools)) empty_db mixed_tools)
          = Some ''boom''"
    unfolding failing_env_def by (simp add: example_raised m hello_then_boom_def)
  have "body (fst (process_chat_request failing_env
         (alice_request (Some Gpt_4_1_mini) (Some mixed_tools)) empty_db))
       = key_chunk (resolve_conversation_key failing_env
                  (alice_request (Some Gpt_4_1_mini) (Some mixed_tools)) empty_db)
           # started_fragments (turn_generation failing_env
                (alice_request (Some Gpt_4_1_mini) (Some mixed_tools)) empty_db mixed_tools)
           @ (case started_raised (turn_generation failing_env
                (alice_request (Some Gpt_4_1_mini) (Some mixed_tools)) empty_db mixed_tools) of
                None \<Rightarrow> [] | Some e \<Rightarrow> [json_dumps ''error'' e])"
    using th3 ml by blast
  then have b3: "body (fst (process_chat_request failing_env
         (alice_request (Some Gpt_4_1_mini) (Some mixed_tools)) empty_db))
       = [key_chunk (resolve_conversation_key failing_env
                  (alice_request (Some Gpt_4_1_mini) (Some mixed_tools)) empty_db),
          ''Hello, '', json_dumps ''error'' ''boom'']"
    by (simp only: fr ra) simp
  show ?thesis
    using a la n1 r s x2 b2 mx n3 b3 by blast
qed

end
